theory Spec2Isabelle
  imports Main
begin

section \<open>Data model\<close>

text \<open>
  The relational schema of the classroom application (the SQL migrations under
  \<^verbatim>\<open>prisma/migrations\<close>), one record per table and one list of rows per table, in
  insertion order. Identifiers are the TEXT primary keys of the schema, timestamps are
  natural numbers (milliseconds). Nullable columns are options. The database enforces
  the primary keys, the unique index on (sessionId, username) and the foreign keys of
  the migrations: an insert that violates one of them throws.
\<close>

datatype SubmissionStatus = PENDING | SUCCESS | ERROR

datatype Sender = STUDENT | AI

record Session =
  s_id :: string
  s_passwordHash :: string
  s_isActive :: bool
  s_createdAt :: nat
  s_endedAt :: "nat option"

record Student =
  st_id :: string
  st_username :: string
  st_passwordHash :: string
  st_createdAt :: nat
  st_sessionId :: string

record PromptSubmission =
  p_id :: string
  p_sessionId :: string
  p_prompt :: string
  p_role :: string
  p_createdAt :: nat
  p_studentId :: "string option"
  p_rootSubmissionId :: "string option"
  p_parentSubmissionId :: "string option"
  p_revisionIndex :: nat
  p_status :: SubmissionStatus
  p_imageData :: "string option"
  p_imageMimeType :: "string option"
  p_errorMessage :: "string option"
  p_isShared :: bool

record ChatThread =
  t_id :: string
  t_title :: string
  t_createdAt :: nat
  t_updatedAt :: nat
  t_sessionId :: string
  t_studentId :: string

record ChatMessage =
  m_id :: string
  m_content :: string
  m_sender :: Sender
  m_createdAt :: nat
  m_threadId :: string
  m_studentId :: "string option"

record Db =
  sessionT :: "Session list"
  studentT :: "Student list"
  promptSubmissionT :: "PromptSubmission list"
  chatThreadT :: "ChatThread list"
  chatMessageT :: "ChatMessage list"

definition emptyDb :: Db where
  "emptyDb = \<lparr>sessionT = [], studentT = [], promptSubmissionT = [], chatThreadT = [],
     chatMessageT = []\<rparr>"

subsection \<open>Requests and responses\<close>

text \<open>
  \<^verbatim>\<open>getSessionFromCookies\<close> reads three cookies; each may be absent. The role cookie
  is an arbitrary string that the code casts to \<^verbatim>\<open>UserRole\<close> and compares with
  \<^verbatim>\<open>'teacher'\<close> and \<^verbatim>\<open>'student'\<close>. \<open>truthy\<close> is JavaScript's truthiness of an
  optional string: \<^verbatim>\<open>undefined\<close>, \<^verbatim>\<open>null\<close> and the empty string are falsy.
\<close>

record Cookies =
  c_sessionId :: "string option"
  c_role :: "string option"
  c_studentId :: "string option"

definition truthy :: "string option \<Rightarrow> bool" where
  "truthy v = (case v of None \<Rightarrow> False | Some s \<Rightarrow> s \<noteq> [])"

text \<open>A value thrown by a callee: an \<^verbatim>\<open>Error\<close> object with its message, or anything else.\<close>

datatype Thrown = ErrorObj string | NonError

datatype CookieOp = SetCookie string string | DeleteCookie string

record SubmissionView =
  v_id :: string
  v_prompt :: string
  v_createdAt :: nat
  v_imageData :: "string option"
  v_imageMimeType :: "string option"
  v_revisionIndex :: nat
  v_parentSubmissionId :: "string option"
  v_rootSubmissionId :: string
  v_isShared :: bool

record Enriched =
  e_submission :: PromptSubmission
  e_rootId :: string
  e_remainingEdits :: int
  e_ownedByCurrentUser :: bool
  e_studentUsername :: "string option"

datatype Payload =
    Message string
  | SessionStarted string nat
  | SessionJoined string string nat
  | Success
  | SubmissionsOnly "Enriched list"
  | Submissions "Enriched list" "string option"
  | SubmissionJson SubmissionView
  | ShareState string bool
  | ThreadJson ChatThread
  | MessagesJson "ChatMessage list"
  | Credentials "(string \<times> string) list"

record Response =
  status :: nat
  payload :: Payload
  cookieOps :: "CookieOp list"

definition json :: "nat \<Rightarrow> Payload \<Rightarrow> Response" where
  "json st pl = \<lparr>status = st, payload = pl, cookieOps = []\<rparr>"

definition sessionCookieName :: string where
  "sessionCookieName = ''classroom_session_id''"

definition roleCookieName :: string where
  "roleCookieName = ''classroom_role''"

definition studentCookieName :: string where
  "studentCookieName = ''classroom_student_id''"

section \<open>Session lifecycle\<close>

text \<open>
  \<^verbatim>\<open>getActiveSession\<close> (lib/session.ts): \<^verbatim>\<open>findFirst\<close> over the active rows, newest
  first. Among rows with the same \<^verbatim>\<open>createdAt\<close> the earliest inserted one is taken.
\<close>

fun newest :: "Session list \<Rightarrow> Session option" where
  "newest [] = None"
| "newest (s # ss) =
     (case newest ss of
        None \<Rightarrow> Some s
      | Some s' \<Rightarrow> if s_createdAt s' > s_createdAt s then Some s' else Some s)"

definition getActiveSession :: "Db \<Rightarrow> Session option" where
  "getActiveSession db = newest (filter s_isActive (sessionT db))"

text \<open>
  \<^verbatim>\<open>endExistingSessions\<close>: \<^verbatim>\<open>updateMany\<close> over the rows with \<^verbatim>\<open>isActive: true\<close>.
\<close>

definition endExistingSessions :: "nat \<Rightarrow> Db \<Rightarrow> Db" where
  "endExistingSessions now db =
     db\<lparr>sessionT :=
          map (\<lambda>s. if s_isActive s then s\<lparr>s_isActive := False, s_endedAt := Some now\<rparr> else s)
            (sessionT db)\<rparr>"

text \<open>
  \<^verbatim>\<open>prisma.session.create\<close>: the primary key is unique; a violation makes the call
  throw (\<open>None\<close>).
\<close>

definition createSession :: "Session \<Rightarrow> Db \<Rightarrow> Db option" where
  "createSession row db =
     (if s_id row \<in> set (map s_id (sessionT db)) then None
      else Some (db\<lparr>sessionT := sessionT db @ [row]\<rparr>))"

text \<open>
  POST /api/session/start. The body is \<^verbatim>\<open>{password: string}\<close>; \<open>hashPassword\<close> is the
  bcrypt hash (salted, so a parameter of the request), \<open>newId\<close> the identifier the
  database generates for the new row and \<open>now\<close> the clock.
\<close>

definition startSession_POST ::
  "(string \<Rightarrow> string) \<Rightarrow> string \<Rightarrow> nat \<Rightarrow> string \<Rightarrow> Db \<Rightarrow> Response \<times> Db" where
  "startSession_POST hashPassword newId now password db =
     (if length password < 4 then
        (json 400 (Message ''Password must be at least 4 characters''), db)
      else
        let db1 = endExistingSessions now db;
            passwordHash = hashPassword password
        in case createSession
                  \<lparr>s_id = newId, s_passwordHash = passwordHash, s_isActive = True,
                   s_createdAt = now, s_endedAt = None\<rparr> db1 of
             None \<Rightarrow> (json 500 (Message ''Unable to start session''), db1)
           | Some db2 \<Rightarrow>
               (\<lparr>status = 200, payload = SessionStarted newId now,
                 cookieOps = [SetCookie sessionCookieName newId,
                              SetCookie roleCookieName ''teacher'',
                              DeleteCookie studentCookieName]\<rparr>, db2))"

text \<open>
  POST /api/session/join. The body is \<^verbatim>\<open>{password, role, teacherKey?}\<close> with \<open>role\<close>
  one of \<^verbatim>\<open>'student'\<close> (the default) and \<^verbatim>\<open>'teacher'\<close>; \<open>verifyPassword\<close> is bcrypt's
  comparison and \<open>requiredKey\<close> the trimmed \<^verbatim>\<open>TEACHER_DASHBOARD_KEY\<close> of the
  environment. The route only reads the database.
\<close>

datatype UserRole = student | teacher

definition roleName :: "UserRole \<Rightarrow> string" where
  "roleName r = (case r of student \<Rightarrow> ''student'' | teacher \<Rightarrow> ''teacher'')"

record JoinBody =
  j_password :: string
  j_role :: UserRole
  j_teacherKey :: "string option"

definition joinSession_POST ::
  "(string \<Rightarrow> string \<Rightarrow> bool) \<Rightarrow> string option \<Rightarrow> JoinBody \<Rightarrow> Db \<Rightarrow> Response \<times> Db" where
  "joinSession_POST verifyPassword requiredKey body db =
     (if length (j_password body) < 1 then
        (json 400 (Message ''Password is required''), db)
      else case getActiveSession db of
        None \<Rightarrow>
          (json 404 (Message ''No active session. Please ask the teacher to start one.''), db)
      | Some activeSession \<Rightarrow>
          if \<not> verifyPassword (j_password body) (s_passwordHash activeSession) then
            (json 401 (Message ''Incorrect password. Try again.''), db)
          else if j_role body = teacher \<and> truthy requiredKey \<and>
                  (\<not> truthy (j_teacherKey body) \<or> j_teacherKey body \<noteq> requiredKey) then
            (json 403 (Message ''Teacher dashboard key is invalid.''), db)
          else
            (\<lparr>status = 200,
              payload = SessionJoined (s_id activeSession) (roleName (j_role body))
                          (s_createdAt activeSession),
              cookieOps =
                [SetCookie sessionCookieName (s_id activeSession),
                 SetCookie roleCookieName (roleName (j_role body))]
                @ (if j_role body = teacher then [DeleteCookie studentCookieName] else [])\<rparr>, db))"

text \<open>
  POST /api/session/end: \<^verbatim>\<open>updateMany\<close> over the rows whose id is the cookie's.
\<close>

definition endSession_POST :: "nat \<Rightarrow> Cookies \<Rightarrow> Db \<Rightarrow> Response \<times> Db" where
  "endSession_POST now ck db =
     (if \<not> truthy (c_sessionId ck) \<or> c_role ck \<noteq> Some ''teacher'' then
        (json 403 (Message ''Teacher access only.''), db)
      else
        (\<lparr>status = 200, payload = Success,
          cookieOps = [DeleteCookie sessionCookieName, DeleteCookie roleCookieName,
                       DeleteCookie studentCookieName]\<rparr>,
         db\<lparr>sessionT :=
              map (\<lambda>s. if Some (s_id s) = c_sessionId ck
                        then s\<lparr>s_isActive := False, s_endedAt := Some now\<rparr> else s)
                (sessionT db)\<rparr>))"

section \<open>Submission lineage engine\<close>

text \<open>
  \<^verbatim>\<open>prisma.promptSubmission.create\<close>: the call throws (\<open>None\<close>) when the primary key
  is taken or a foreign key (session, student, root, parent) names no row.
\<close>

definition refersTo :: "string option \<Rightarrow> string list \<Rightarrow> bool" where
  "refersTo fk ids = (case fk of None \<Rightarrow> True | Some i \<Rightarrow> i \<in> set ids)"

definition createPromptSubmission :: "PromptSubmission \<Rightarrow> Db \<Rightarrow> Db option" where
  "createPromptSubmission row db =
     (if p_id row \<in> set (map p_id (promptSubmissionT db)) then None
      else if p_sessionId row \<notin> set (map s_id (sessionT db)) then None
      else if \<not> refersTo (p_studentId row) (map st_id (studentT db)) then None
      else if \<not> refersTo (p_rootSubmissionId row) (map p_id (promptSubmissionT db)) then None
      else if \<not> refersTo (p_parentSubmissionId row) (map p_id (promptSubmissionT db)) then None
      else Some (db\<lparr>promptSubmissionT := promptSubmissionT db @ [row]\<rparr>))"

text \<open>
  \<^verbatim>\<open>prisma.promptSubmission.update({where: {id}, data})\<close>. Every call site updates a
  row it has just created or found, so the row exists.
\<close>

definition updatePromptSubmission ::
  "string \<Rightarrow> (PromptSubmission \<Rightarrow> PromptSubmission) \<Rightarrow> Db \<Rightarrow> Db" where
  "updatePromptSubmission i f db =
     db\<lparr>promptSubmissionT := map (\<lambda>s. if p_id s = i then f s else s) (promptSubmissionT db)\<rparr>"

definition findSubmission :: "string \<Rightarrow> Db \<Rightarrow> PromptSubmission option" where
  "findSubmission i db = find (\<lambda>s. p_id s = i) (promptSubmissionT db)"

text \<open>
  The chain count of the generate route: rows of the session that are the root or name
  it as their root, with status PENDING or SUCCESS.
\<close>

definition chainCount :: "string \<Rightarrow> string \<Rightarrow> Db \<Rightarrow> nat" where
  "chainCount sessionId rootId db =
     length (filter (\<lambda>s. p_sessionId s = sessionId \<and>
                          (p_id s = rootId \<or> p_rootSubmissionId s = Some rootId) \<and>
                          (p_status s = PENDING \<or> p_status s = SUCCESS))
               (promptSubmissionT db))"

record GenerateBody =
  g_prompt :: string
  g_parentSubmissionId :: "string option"

definition orElse :: "'a option \<Rightarrow> 'a \<Rightarrow> 'a" where
  "orElse v d = (case v of None \<Rightarrow> d | Some x \<Rightarrow> x)"

definition thrownMessage :: "Thrown \<Rightarrow> string \<Rightarrow> string" where
  "thrownMessage e d = (case e of ErrorObj m \<Rightarrow> m | NonError \<Rightarrow> d)"

text \<open>
  The parent branch of POST /api/images/generate (the body of
  \<^verbatim>\<open>if (parentSubmissionId) { ... }\<close>): either the response that ends the request, or
  the root id, the revision index and the data URL of the parent's image.
\<close>

definition resolveParent ::
  "string \<Rightarrow> string \<Rightarrow> string \<Rightarrow> Db \<Rightarrow> Response + (string \<times> nat \<times> string)" where
  "resolveParent sessionId studentId parentSubmissionId db =
     (case findSubmission parentSubmissionId db of
        None \<Rightarrow> Inl (json 404 (Message ''Original image not found for this session.''))
      | Some parent \<Rightarrow>
          if p_sessionId parent \<noteq> sessionId then
            Inl (json 404 (Message ''Original image not found for this session.''))
          else if p_studentId parent \<noteq> Some studentId then
            Inl (json 403 (Message ''You can only refine images you created.''))
          else if \<not> truthy (p_imageData parent) then
            Inl (json 422 (Message ''Original image data is unavailable for refinement.''))
          else
            let rootId = orElse (p_rootSubmissionId parent) (p_id parent);
                n = chainCount sessionId rootId db
            in if n \<ge> 3 then
                 Inl (json 400 (Message ''This image has no refinements remaining.''))
               else
                 Inr (rootId, n,
                      ''data:'' @ orElse (p_imageMimeType parent) ''image/png'' @ '';base64,''
                        @ the (p_imageData parent)))"

text \<open>
  The lineage of a new submission: without a (truthy) \<^verbatim>\<open>parentSubmissionId\<close> it is a
  new root; an empty \<^verbatim>\<open>parentSubmissionId\<close> is falsy, so it counts as absent here.
\<close>

definition lineage ::
  "string \<Rightarrow> string \<Rightarrow> string option \<Rightarrow> Db \<Rightarrow> Response + (string option \<times> nat \<times> string option)" where
  "lineage sessionId studentId parentSubmissionId db =
     (if truthy parentSubmissionId then
        (case resolveParent sessionId studentId (the parentSubmissionId) db of
           Inl r \<Rightarrow> Inl r
         | Inr (rootId, n, url) \<Rightarrow> Inr (Some rootId, n, Some url))
      else Inr (None, 0, None))"

text \<open>The row that \<^verbatim>\<open>prisma.promptSubmission.create\<close> is given, with the column defaults.\<close>

definition pendingSubmission ::
  "string \<Rightarrow> nat \<Rightarrow> string \<Rightarrow> string \<Rightarrow> GenerateBody \<Rightarrow> string option \<Rightarrow> nat \<Rightarrow> PromptSubmission" where
  "pendingSubmission newId now sessionId studentId body rootSubmissionId revisionIndex =
     \<lparr>p_id = newId, p_sessionId = sessionId, p_prompt = g_prompt body, p_role = ''STUDENT'',
      p_createdAt = now, p_studentId = Some studentId, p_rootSubmissionId = rootSubmissionId,
      p_parentSubmissionId = g_parentSubmissionId body, p_revisionIndex = revisionIndex,
      p_status = PENDING, p_imageData = None, p_imageMimeType = None, p_errorMessage = None,
      p_isShared = False\<rparr>"

text \<open>
  POST /api/images/generate. \<open>callOpenRouter\<close> is the remote generation call: it returns
  the image data and its MIME type or throws. \<open>newId\<close> is the id the database gives the
  new row, \<open>now\<close> the clock.
\<close>

definition generate_POST ::
  "(string \<Rightarrow> string option \<Rightarrow> Thrown + string \<times> string) \<Rightarrow> string \<Rightarrow> nat \<Rightarrow>
     Cookies \<Rightarrow> GenerateBody \<Rightarrow> Db \<Rightarrow> Response \<times> Db" where
  "generate_POST callOpenRouter newId now ck body db =
     (if \<not> truthy (c_sessionId ck) \<or> \<not> truthy (c_role ck) then
        (json 401 (Message ''Join the classroom session before generating images.''), db)
      else if c_role ck \<noteq> Some ''student'' \<or> \<not> truthy (c_studentId ck) then
        (json 403 (Message ''Only students can generate images in this view.''), db)
      else if length (g_prompt body) < 5 then
        (json 400 (Message ''Please write a longer prompt to help the AI.''), db)
      else
        let sessionId = the (c_sessionId ck); studentId = the (c_studentId ck) in
        case find (\<lambda>s. s_id s = sessionId \<and> s_isActive s) (sessionT db) of
          None \<Rightarrow>
            (json 403 (Message ''Session expired. Please ask the teacher to restart.''), db)
        | Some _ \<Rightarrow>
            (case lineage sessionId studentId (g_parentSubmissionId body) db of
               Inl r \<Rightarrow> (r, db)
             | Inr (rootSubmissionId, revisionIndex, baseImageDataUrl) \<Rightarrow>
                 (case createPromptSubmission
                         (pendingSubmission newId now sessionId studentId body rootSubmissionId
                            revisionIndex) db of
                    None \<Rightarrow> (json 500 (Message ''Unable to generate image''), db)
                  | Some db1 \<Rightarrow>
                      (case callOpenRouter (g_prompt body) baseImageDataUrl of
                         Inr (imageData, mimeType) \<Rightarrow>
                           (json 200 (SubmissionJson
                              \<lparr>v_id = newId, v_prompt = g_prompt body, v_createdAt = now,
                               v_imageData = Some imageData, v_imageMimeType = Some mimeType,
                               v_revisionIndex = revisionIndex,
                               v_parentSubmissionId = g_parentSubmissionId body,
                               v_rootSubmissionId = orElse rootSubmissionId newId,
                               v_isShared = False\<rparr>),
                            updatePromptSubmission newId
                              (\<lambda>s. s\<lparr>p_status := SUCCESS, p_imageData := Some imageData,
                                      p_imageMimeType := Some mimeType\<rparr>) db1)
                       | Inl generationError \<Rightarrow>
                           (json 502 (Message
                              (thrownMessage generationError ''Image generation failed'')),
                            updatePromptSubmission newId
                              (\<lambda>s. s\<lparr>p_status := ERROR,
                                      p_errorMessage :=
                                        Some (thrownMessage generationError
                                                ''Image generation failed'')\<rparr>) db1)))))"

text \<open>
  POST /api/images/share. The body is \<^verbatim>\<open>{submissionId, share}\<close>; \<open>isCuid\<close> is the
  schema library's test of the \<^verbatim>\<open>cuid\<close> format, whose failure is reported with the
  library's message.
\<close>

record ShareBody =
  sh_submissionId :: string
  sh_share :: bool

definition setShared_POST ::
  "(string \<Rightarrow> bool) \<Rightarrow> Cookies \<Rightarrow> ShareBody \<Rightarrow> Db \<Rightarrow> Response \<times> Db" where
  "setShared_POST isCuid ck body db =
     (if \<not> truthy (c_sessionId ck) \<or> c_role ck \<noteq> Some ''student'' \<or>
         \<not> truthy (c_studentId ck) then
        (json 403 (Message ''Student access required.''), db)
      else if \<not> isCuid (sh_submissionId body) then
        (json 400 (Message ''Invalid cuid''), db)
      else case findSubmission (sh_submissionId body) db of
        None \<Rightarrow> (json 403 (Message ''You can only manage sharing for your own images.''), db)
      | Some submission \<Rightarrow>
          if Some (p_sessionId submission) \<noteq> c_sessionId ck \<or>
             p_studentId submission \<noteq> c_studentId ck then
            (json 403 (Message ''You can only manage sharing for your own images.''), db)
          else if p_status submission \<noteq> SUCCESS then
            (json 400 (Message ''Only completed images can be shared.''), db)
          else
            (json 200 (ShareState (p_id submission) (sh_share body)),
             updatePromptSubmission (p_id submission) (\<lambda>s. s\<lparr>p_isShared := sh_share body\<rparr>) db))"

text \<open>
  GET /api/images/share (the gallery list). The \<^verbatim>\<open>where\<close> clause, the order (newest
  first) and the joined username of the owning student. Rows of equal \<^verbatim>\<open>createdAt\<close>
  come back in the order of the table.
\<close>

definition visibleTo :: "Cookies \<Rightarrow> PromptSubmission \<Rightarrow> bool" where
  "visibleTo ck s =
     (Some (p_sessionId s) = c_sessionId ck \<and>
      (if c_role ck \<noteq> Some ''teacher''
       then p_status s = SUCCESS \<and>
            (p_isShared s \<or> (truthy (c_studentId ck) \<and> p_studentId s = c_studentId ck))
       else True))"

definition newestFirst :: "PromptSubmission list \<Rightarrow> PromptSubmission list" where
  "newestFirst xs = rev (sort_key p_createdAt (rev xs))"

definition usernameOf :: "string option \<Rightarrow> Db \<Rightarrow> string option" where
  "usernameOf sid db =
     (case sid of
        None \<Rightarrow> None
      | Some i \<Rightarrow> map_option st_username (find (\<lambda>st. st_id st = i) (studentT db)))"

text \<open>The loop that fills \<^verbatim>\<open>successCounts\<close>, a map from root id to a count.\<close>

fun successCounts :: "PromptSubmission list \<Rightarrow> (string \<rightharpoonup> nat) \<Rightarrow> (string \<rightharpoonup> nat)" where
  "successCounts [] m = m"
| "successCounts (s # ss) m =
     (if p_status s \<noteq> SUCCESS then successCounts ss m
      else let rootId = orElse (p_rootSubmissionId s) (p_id s)
           in successCounts ss (m(rootId \<mapsto> orElse (m rootId) 0 + 1)))"

definition enrich :: "Cookies \<Rightarrow> Db \<Rightarrow> (string \<rightharpoonup> nat) \<Rightarrow> PromptSubmission \<Rightarrow> Enriched" where
  "enrich ck db counts s =
     (let rootId = orElse (p_rootSubmissionId s) (p_id s);
          successCount = orElse (counts rootId) (if p_status s = SUCCESS then 1 else 0)
      in \<lparr>e_submission = s, e_rootId = rootId,
          e_remainingEdits = max 0 (3 - int successCount),
          e_ownedByCurrentUser =
            (if truthy (c_studentId ck) then p_studentId s = c_studentId ck else False),
          e_studentUsername = usernameOf (p_studentId s) db\<rparr>)"

definition listSubmissions_GET :: "Cookies \<Rightarrow> Db \<Rightarrow> Response \<times> Db" where
  "listSubmissions_GET ck db =
     (if \<not> truthy (c_sessionId ck) then (json 200 (SubmissionsOnly []), db)
      else case find (\<lambda>s. Some (s_id s) = c_sessionId ck \<and> s_isActive s) (sessionT db) of
        None \<Rightarrow> (json 200 (SubmissionsOnly []), db)
      | Some _ \<Rightarrow>
          let submissions = newestFirst (filter (visibleTo ck) (promptSubmissionT db));
              counts = successCounts submissions Map.empty
          in (json 200 (Submissions (map (enrich ck db counts) submissions) (c_role ck)), db))"

text \<open>
  \<^verbatim>\<open>getSubmissionWithRemainingEdits\<close> (lib/session.ts): the remaining edits of one
  submission, counted over the whole chain in the store.
\<close>

definition getSubmissionWithRemainingEdits :: "string \<Rightarrow> Db \<Rightarrow> (PromptSubmission \<times> int) option" where
  "getSubmissionWithRemainingEdits submissionId db =
     (case findSubmission submissionId db of
        None \<Rightarrow> None
      | Some submission \<Rightarrow>
          let rootId = orElse (p_rootSubmissionId submission) (p_id submission);
              n = length (filter (\<lambda>s. (p_id s = rootId \<or> p_rootSubmissionId s = Some rootId) \<and>
                                       p_status s = SUCCESS) (promptSubmissionT db))
          in Some (submission, max 0 (3 - int n)))"

section \<open>Chat thread engine\<close>

text \<open>
  \<^verbatim>\<open>String.prototype.trim\<close> on the characters a \<open>char\<close> can hold, and the decimal
  numeral of a template string.
\<close>

definition isWhiteSpace :: "char \<Rightarrow> bool" where
  "isWhiteSpace c =
     (c \<in> set [CHR 0x09, CHR 0x0A, CHR 0x0B, CHR 0x0C, CHR 0x0D, CHR 0x20, CHR 0xA0])"

definition trim :: "string \<Rightarrow> string" where
  "trim s = rev (dropWhile isWhiteSpace (rev (dropWhile isWhiteSpace s)))"

fun natToString :: "nat \<Rightarrow> string" where
  "natToString n =
     (if n < 10 then [''0123456789'' ! n]
      else natToString (n div 10) @ [''0123456789'' ! (n mod 10)])"

declare natToString.simps [simp del]

definition MAX_THREADS_PER_STUDENT :: nat where
  "MAX_THREADS_PER_STUDENT = 5"

definition MAX_HISTORY_MESSAGES :: nat where
  "MAX_HISTORY_MESSAGES = 20"

definition createChatThread :: "ChatThread \<Rightarrow> Db \<Rightarrow> Db option" where
  "createChatThread row db =
     (if t_id row \<in> set (map t_id (chatThreadT db)) then None
      else if t_sessionId row \<notin> set (map s_id (sessionT db)) then None
      else if t_studentId row \<notin> set (map st_id (studentT db)) then None
      else Some (db\<lparr>chatThreadT := chatThreadT db @ [row]\<rparr>))"

definition threadCountOf :: "string \<Rightarrow> string \<Rightarrow> Db \<Rightarrow> nat" where
  "threadCountOf sessionId studentId db =
     length (filter (\<lambda>t. t_sessionId t = sessionId \<and> t_studentId t = studentId) (chatThreadT db))"

text \<open>
  POST /api/chat/threads. The body is \<^verbatim>\<open>{title?: string}\<close> (an unreadable body counts
  as \<^verbatim>\<open>{}\<close>); the schema trims the title and bounds it by 80 characters.
\<close>

definition createThread_POST ::
  "string \<Rightarrow> nat \<Rightarrow> Cookies \<Rightarrow> string option \<Rightarrow> Db \<Rightarrow> Response \<times> Db" where
  "createThread_POST newId now ck bodyTitle db =
     (if \<not> truthy (c_sessionId ck) \<or> c_role ck \<noteq> Some ''student'' \<or>
         \<not> truthy (c_studentId ck) then
        (json 403 (Message ''Student access required.''), db)
      else
        let sessionId = the (c_sessionId ck); studentId = the (c_studentId ck);
            title = map_option trim bodyTitle
        in if (case title of None \<Rightarrow> False | Some t \<Rightarrow> length t > 80) then
             (json 400 (Message ''String must contain at most 80 character(s)''), db)
           else
             let threadCount = threadCountOf sessionId studentId db
             in if threadCount \<ge> MAX_THREADS_PER_STUDENT then
                  (json 400 (Message ''You have reached the chat limit for this session.''), db)
                else
                  let threadTitle =
                        (if truthy title then the title
                         else ''Conversation '' @ natToString (threadCount + 1));
                      thread = \<lparr>t_id = newId, t_title = threadTitle, t_createdAt = now,
                                t_updatedAt = now, t_sessionId = sessionId,
                                t_studentId = studentId\<rparr>
                  in case createChatThread thread db of
                       None \<Rightarrow> (json 500 (Message ''Unable to create chat thread''), db)
                     | Some db1 \<Rightarrow> (json 200 (ThreadJson thread), db1))"

definition createChatMessage :: "ChatMessage \<Rightarrow> Db \<Rightarrow> Db option" where
  "createChatMessage row db =
     (if m_id row \<in> set (map m_id (chatMessageT db)) then None
      else if m_threadId row \<notin> set (map t_id (chatThreadT db)) then None
      else if \<not> refersTo (m_studentId row) (map st_id (studentT db)) then None
      else Some (db\<lparr>chatMessageT := chatMessageT db @ [row]\<rparr>))"

text \<open>
  The history sent to the model: the messages of the thread newest first (those of
  equal \<^verbatim>\<open>createdAt\<close> in the order of the table), the first \<open>MAX_HISTORY_MESSAGES\<close>
  of them, reversed.
\<close>

definition orderedHistory :: "string \<Rightarrow> Db \<Rightarrow> ChatMessage list" where
  "orderedHistory threadId db =
     rev (take MAX_HISTORY_MESSAGES
            (rev (sort_key m_createdAt
                    (rev (filter (\<lambda>m. m_threadId m = threadId) (chatMessageT db))))))"

text \<open>
  POST /api/chat/threads/[threadId]/messages. \<open>callChatCompletion\<close> is the remote chat
  call (it returns the reply or throws), \<open>dbError\<close> the message of the error a failed
  database call throws, \<open>newIds\<close> the ids of the rows the request creates, \<open>now\<close> and
  \<open>later\<close> the clock before and after the remote call.
\<close>

definition postMessage_POST ::
  "((Sender \<times> string) list \<Rightarrow> Thrown + string) \<Rightarrow> string \<Rightarrow> (nat \<Rightarrow> string) \<Rightarrow> nat \<Rightarrow> nat \<Rightarrow>
     string \<Rightarrow> Cookies \<Rightarrow> string \<Rightarrow> Db \<Rightarrow> Response \<times> Db" where
  "postMessage_POST callChatCompletion dbError newIds now later threadId ck bodyContent db =
     (if \<not> truthy (c_sessionId ck) \<or> c_role ck \<noteq> Some ''student'' \<or>
         \<not> truthy (c_studentId ck) then
        (json 403 (Message ''Student access required.''), db)
      else case find (\<lambda>t. t_id t = threadId) (chatThreadT db) of
        None \<Rightarrow> (json 404 (Message ''Chat not found.''), db)
      | Some thread \<Rightarrow>
          (if Some (t_sessionId thread) \<noteq> c_sessionId ck \<or>
              Some (t_studentId thread) \<noteq> c_studentId ck then
             (json 404 (Message ''Chat not found.''), db)
           else
             let content = trim bodyContent;
                 studentMessage =
                   \<lparr>m_id = newIds 0, m_content = content, m_sender = STUDENT,
                    m_createdAt = now, m_threadId = threadId, m_studentId = c_studentId ck\<rparr>
             in
             if length content < 1 then (json 400 (Message ''Message cannot be empty''), db)
             else if length content > 4000 then (json 400 (Message ''Message is too long''), db)
             else
               (case createChatMessage studentMessage db of
                  None \<Rightarrow> (json 500 (Message dbError), db)
                | Some db1 \<Rightarrow>
                    (case callChatCompletion
                            (map (\<lambda>m. (m_sender m, m_content m)) (orderedHistory threadId db1)) of
                       Inl e \<Rightarrow>
                         (json 500 (Message (thrownMessage e ''Unable to send message'')), db1)
                     | Inr aiResponseText \<Rightarrow>
                         (let aiMessage =
                                \<lparr>m_id = newIds 1, m_content = aiResponseText, m_sender = AI,
                                 m_createdAt = later, m_threadId = threadId, m_studentId = None\<rparr>
                          in (case createChatMessage aiMessage db1 of
                                None \<Rightarrow> (json 500 (Message dbError), db1)
                              | Some db2 \<Rightarrow>
                                  (json 200 (MessagesJson [studentMessage, aiMessage]),
                                   db2\<lparr>chatThreadT :=
                                         map (\<lambda>t. if t_id t = threadId
                                                   then t\<lparr>t_updatedAt := later\<rparr> else t)
                                           (chatThreadT db2)\<rparr>)))))))"

section \<open>Credential generation\<close>

text \<open>
  \<^verbatim>\<open>randomCode\<close> maps the bytes of one \<^verbatim>\<open>crypto.randomBytes\<close> call to characters of
  its alphabet. \<^verbatim>\<open>toLowerCase\<close> is modelled on the ASCII letters; other characters
  are left as they are.
\<close>

definition chars :: string where
  "chars = ''ABCDEFGHJKLMNPQRSTUVWXYZabcdefghijkmnopqrstuvwxyz23456789''"

definition randomCode :: "nat list \<Rightarrow> string" where
  "randomCode bytes = map (\<lambda>b. chars ! (b mod length chars)) bytes"

definition toLowerChar :: "char \<Rightarrow> char" where
  "toLowerChar c =
     orElse (map_of (zip ''ABCDEFGHIJKLMNOPQRSTUVWXYZ'' ''abcdefghijklmnopqrstuvwxyz'') c) c"

definition toLowerCase :: "string \<Rightarrow> string" where
  "toLowerCase s = map toLowerChar s"

text \<open>
  \<^verbatim>\<open>tx.student.create\<close>: the primary key and the pair (sessionId, username) are
  unique, and the session must exist.
\<close>

definition createStudent :: "Student \<Rightarrow> Db \<Rightarrow> Db option" where
  "createStudent row db =
     (if st_id row \<in> set (map st_id (studentT db)) then None
      else if st_sessionId row \<notin> set (map s_id (sessionT db)) then None
      else if (st_sessionId row, st_username row)
                \<in> set (map (\<lambda>st. (st_sessionId st, st_username st)) (studentT db)) then None
      else Some (db\<lparr>studentT := studentT db @ [row]\<rparr>))"

text \<open>
  The random source is the list of the byte strings that the successive
  \<^verbatim>\<open>crypto.randomBytes\<close> calls return. The \<^verbatim>\<open>while\<close> loop draws codes until one is
  unused; when the source runs out before that, the loop has not returned (\<open>None\<close>).
\<close>

fun pickUsername :: "string list \<Rightarrow> nat list list \<Rightarrow> (string \<times> nat list list) option" where
  "pickUsername usedUsernames [] = None"
| "pickUsername usedUsernames (bytes # src) =
     (if toLowerCase (randomCode bytes) \<in> set usedUsernames
      then pickUsername usedUsernames src
      else Some (randomCode bytes, src))"

datatype 'a Outcome = NoReturn | Threw | Returned 'a

text \<open>
  The \<^verbatim>\<open>for\<close> loop inside the transaction: \<open>i\<close> is the loop counter and \<open>k\<close> the
  number of iterations left.
\<close>

fun createLoop ::
  "(string \<Rightarrow> string) \<Rightarrow> (nat \<Rightarrow> string) \<Rightarrow> nat \<Rightarrow> string \<Rightarrow> nat \<Rightarrow> nat \<Rightarrow> string list \<Rightarrow>
     nat list list \<Rightarrow> Db \<Rightarrow> (string \<times> string) list \<Rightarrow> (Db \<times> (string \<times> string) list) Outcome" where
  "createLoop hashPassword newIds now sessionId i 0 usedUsernames src db credentials =
     Returned (db, credentials)"
| "createLoop hashPassword newIds now sessionId i (Suc k) usedUsernames src db credentials =
     (case pickUsername usedUsernames src of
        None \<Rightarrow> NoReturn
      | Some (username, src1) \<Rightarrow>
          (case src1 of
             [] \<Rightarrow> NoReturn
           | bytes # src2 \<Rightarrow>
               let password = randomCode bytes in
               (case createStudent
                       \<lparr>st_id = newIds i, st_username = username,
                        st_passwordHash = hashPassword password, st_createdAt = now,
                        st_sessionId = sessionId\<rparr> db of
                  None \<Rightarrow> Threw
                | Some db1 \<Rightarrow>
                    createLoop hashPassword newIds now sessionId (Suc i) k
                      (toLowerCase username # usedUsernames) src2 db1
                      (credentials @ [(username, password)]))))"

text \<open>
  POST /api/teacher/students/generate. The body is \<^verbatim>\<open>{count}\<close>, an integer. A throw
  inside the transaction rolls it back. \<open>None\<close>: the request has not returned.
\<close>

definition generateStudents_POST ::
  "(string \<Rightarrow> string) \<Rightarrow> (nat \<Rightarrow> string) \<Rightarrow> nat \<Rightarrow> nat list list \<Rightarrow> Cookies \<Rightarrow> int \<Rightarrow> Db \<Rightarrow>
     (Response \<times> Db) option" where
  "generateStudents_POST hashPassword newIds now src ck count db =
     (if \<not> truthy (c_sessionId ck) \<or> c_role ck \<noteq> Some ''teacher'' then
        Some (json 403 (Message ''Teacher access only.''), db)
      else if count < 1 then
        Some (json 400 (Message ''Number must be greater than or equal to 1''), db)
      else if count > 50 then
        Some (json 400 (Message ''Number must be less than or equal to 50''), db)
      else
        let sessionId = the (c_sessionId ck);
            existing = filter (\<lambda>st. st_sessionId st = sessionId) (studentT db);
            usedUsernames = map (\<lambda>entry. toLowerCase (st_username entry)) existing
        in case createLoop hashPassword newIds now sessionId 0 (nat count) usedUsernames src db [] of
             NoReturn \<Rightarrow> None
           | Threw \<Rightarrow> Some (json 500 (Message ''Unable to generate student credentials''), db)
           | Returned (db1, credentials) \<Rightarrow> Some (json 200 (Credentials credentials), db1))"

section \<open>Chains and store invariants\<close>

text \<open>
  The chain of a root id, in the words of the specification: the submissions whose id
  is the root or that name it as their root. \<open>rootOf\<close> is the root id of a submission:
  its \<^verbatim>\<open>rootSubmissionId\<close>, or its own id when that is null.
\<close>

definition rootOf :: "PromptSubmission \<Rightarrow> string" where
  "rootOf s = orElse (p_rootSubmissionId s) (p_id s)"

definition chainOf :: "string \<Rightarrow> Db \<Rightarrow> PromptSubmission list" where
  "chainOf rootId db =
     filter (\<lambda>s. p_id s = rootId \<or> p_rootSubmissionId s = Some rootId) (promptSubmissionT db)"

definition live :: "PromptSubmission \<Rightarrow> bool" where
  "live s = (p_status s = PENDING \<or> p_status s = SUCCESS)"

text \<open>
  Well-formed lineage: submission ids are unique, and a submission that names a root
  names an existing submission of its own session and owner that is itself an original.
\<close>

definition lineage_wf :: "Db \<Rightarrow> bool" where
  "lineage_wf db =
     (distinct (map p_id (promptSubmissionT db)) \<and>
      list_all (\<lambda>s. case p_rootSubmissionId s of
                      None \<Rightarrow> True
                    | Some r \<Rightarrow> list_ex (\<lambda>t. p_id t = r \<and> p_sessionId t = p_sessionId s \<and>
                                            p_rootSubmissionId t = None \<and>
                                            p_studentId t = p_studentId s)
                                 (promptSubmissionT db))
        (promptSubmissionT db))"

text \<open>Usernames of one session, compared without case.\<close>

definition sessionUsernames :: "string \<Rightarrow> Db \<Rightarrow> string list" where
  "sessionUsernames sessionId db =
     map (\<lambda>st. toLowerCase (st_username st))
       (filter (\<lambda>st. st_sessionId st = sessionId) (studentT db))"

section \<open>Reachable stores\<close>

text \<open>
  The stores the application can be in: the empty store, and every store a request
  leaves behind, whatever its cookies, body, clock, generated ids, random bytes and
  remote answers are. Requests are taken one at a time, each from the store the
  previous one left; start requests whose database calls interleave are the subject of
  the next section.
\<close>

inductive reachable :: "Db \<Rightarrow> bool" where
  init: "reachable emptyDb"
| startSession:
    "reachable db \<Longrightarrow> reachable (snd (startSession_POST hashPassword newId now password db))"
| joinSession:
    "reachable db \<Longrightarrow> reachable (snd (joinSession_POST verifyPassword requiredKey jbody db))"
| endSession:
    "reachable db \<Longrightarrow> reachable (snd (endSession_POST now ck db))"
| generate:
    "reachable db \<Longrightarrow> reachable (snd (generate_POST callOpenRouter newId now ck gbody db))"
| setShared:
    "reachable db \<Longrightarrow> reachable (snd (setShared_POST isCuid ck sbody db))"
| listSubmissions:
    "reachable db \<Longrightarrow> reachable (snd (listSubmissions_GET ck db))"
| createThread:
    "reachable db \<Longrightarrow> reachable (snd (createThread_POST newId now ck bodyTitle db))"
| postMessage:
    "reachable db \<Longrightarrow>
     reachable (snd (postMessage_POST callChatCompletion dbError newIds now later threadId ck
                       bodyContent db))"
| generateStudents:
    "reachable db \<Longrightarrow>
     generateStudents_POST hashPassword newIds now src ck count db = Some (r, db') \<Longrightarrow>
     reachable db'"

section \<open>Overlapping start requests\<close>



section \<open>An example classroom\<close>

text \<open>
  A small store used to run the routes on concrete requests: one active session, two
  students, and one chain of the first student, a shared original and a private
  refinement of it, both generated successfully.
\<close>

definition exSession :: Session where
  "exSession = \<lparr>s_id = ''sess1'', s_passwordHash = ''hash:open sesame'', s_isActive = True,
     s_createdAt = 10, s_endedAt = None\<rparr>"

definition exStudent :: "string \<Rightarrow> string \<Rightarrow> string \<Rightarrow> Student" where
  "exStudent i u pw = \<lparr>st_id = i, st_username = u, st_passwordHash = ''hash:'' @ pw,
     st_createdAt = 20, st_sessionId = ''sess1''\<rparr>"

definition exSubmission ::
  "string \<Rightarrow> nat \<Rightarrow> string option \<Rightarrow> nat \<Rightarrow> bool \<Rightarrow> PromptSubmission" where
  "exSubmission i t parent idx shared =
     \<lparr>p_id = i, p_sessionId = ''sess1'', p_prompt = ''a red kite'', p_role = ''STUDENT'',
      p_createdAt = t, p_studentId = Some ''st1'',
      p_rootSubmissionId = (if parent = None then None else Some ''sub0''),
      p_parentSubmissionId = parent, p_revisionIndex = idx, p_status = SUCCESS,
      p_imageData = Some ''aW1n'', p_imageMimeType = Some ''image/png'', p_errorMessage = None,
      p_isShared = shared\<rparr>"

definition exDb :: Db where
  "exDb = \<lparr>sessionT = [exSession],
     studentT = [exStudent ''st1'' ''AAAAAAAA'' ''BBBBBBBB'',
                 exStudent ''st2'' ''CCCCCCCC'' ''DDDDDDDD''],
     promptSubmissionT = [exSubmission ''sub0'' 30 None 0 True,
                          exSubmission ''sub1'' 40 (Some ''sub0'') 1 False],
     chatThreadT = [], chatMessageT = []\<rparr>"

definition exHash :: "string \<Rightarrow> string" where
  "exHash pw = ''hash:'' @ pw"

definition exRemote :: "string \<Rightarrow> string option \<Rightarrow> Thrown + string \<times> string" where
  "exRemote prompt base = Inr (''aW1n'', ''image/png'')"

definition exTeacher :: Cookies where
  "exTeacher = \<lparr>c_sessionId = Some ''sess1'', c_role = Some ''teacher'', c_studentId = None\<rparr>"

definition exStudentCk :: "string \<Rightarrow> Cookies" where
  "exStudentCk i =
     \<lparr>c_sessionId = Some ''sess1'', c_role = Some ''student'', c_studentId = Some i\<rparr>"

definition exIds :: "nat \<Rightarrow> string" where
  "exIds k = (if k = 0 then ''st1'' else ''st2'')"

definition exBytes :: "nat list list" where
  "exBytes = [replicate 8 0, replicate 8 1, replicate 8 2, replicate 8 3]"

text \<open>The requests that build the example store, one after the other.\<close>

definition exDb1 :: Db where
  "exDb1 = snd (startSession_POST exHash ''sess1'' 10 ''open sesame'' emptyDb)"

definition exDb2 :: Db where
  "exDb2 = exDb1\<lparr>studentT := [exStudent ''st1'' ''AAAAAAAA'' ''BBBBBBBB'',
                               exStudent ''st2'' ''CCCCCCCC'' ''DDDDDDDD'']\<rparr>"

definition exDb3 :: Db where
  "exDb3 = snd (generate_POST exRemote ''sub0'' 30 (exStudentCk ''st1'')
                  \<lparr>g_prompt = ''a red kite'', g_parentSubmissionId = None\<rparr> exDb2)"

definition exDb4 :: Db where
  "exDb4 = snd (generate_POST exRemote ''sub1'' 40 (exStudentCk ''st1'')
                  \<lparr>g_prompt = ''a red kite'', g_parentSubmissionId = Some ''sub0''\<rparr> exDb3)"

definition exFail :: "string \<Rightarrow> string option \<Rightarrow> Thrown + string \<times> string" where
  "exFail prompt base = Inl (ErrorObj ''Rate limit exceeded'')"

definition exDb5 :: Db where
  "exDb5 = snd (generate_POST exFail ''sub2'' 50 (exStudentCk ''st1'')
                  \<lparr>g_prompt = ''a blue kite'', g_parentSubmissionId = Some ''sub1''\<rparr> exDb)"

definition exDb6 :: Db where
  "exDb6 = snd (generate_POST exRemote ''sub2'' 50 (exStudentCk ''st1'')
                  \<lparr>g_prompt = ''a blue kite'', g_parentSubmissionId = Some ''sub1''\<rparr> exDb)"

primrec exDbT :: "nat \<Rightarrow> Db" where
  "exDbT 0 = exDb5"
| "exDbT (Suc k) =
     snd (createThread_POST (''thread'' @ natToString (Suc k)) 80 (exStudentCk ''st1'') None (exDbT k))"

text \<open>The row a thread is created with.\<close>

definition newThread :: "string \<Rightarrow> nat \<Rightarrow> string \<Rightarrow> string \<Rightarrow> string \<Rightarrow> ChatThread" where
  "newThread newId now sessionId studentId title =
     \<lparr>t_id = newId, t_title = title, t_createdAt = now, t_updatedAt = now,
      t_sessionId = sessionId, t_studentId = studentId\<rparr>"

definition exChatFail :: "(Sender \<times> string) list \<Rightarrow> Thrown + string" where
  "exChatFail history = Inl (ErrorObj ''Provider returned error'')"

definition exMsgIds :: "nat \<Rightarrow> string" where
  "exMsgIds k = (if k = 0 then ''msg1'' else ''msg2'')"

text \<open>
  The collisions of a random source: the codes whose lower-case form has been seen
  before, among the given names or earlier in the source.
\<close>

fun collisions :: "string list \<Rightarrow> nat list list \<Rightarrow> nat" where
  "collisions seen [] = 0"
| "collisions seen (bytes # src) =
     (if toLowerCase (randomCode bytes) \<in> set seen then 1 else 0)
       + collisions (toLowerCase (randomCode bytes) # seen) src"

text \<open>The username of a student row without case, as the route compares usernames.\<close>

definition lowerName :: "Student \<Rightarrow> string" where
  "lowerName st = toLowerCase (st_username st)"

definition exBytes2 :: "nat list list" where
  "exBytes2 = [replicate 8 0, replicate 8 24, replicate 8 4, replicate 8 5]"

text \<open>
  The annotated submissions of a list response, and the number of SUCCESS rows of a
  root among given rows.
\<close>

definition enrichedOf :: "Response \<Rightarrow> Enriched list" where
  "enrichedOf r = (case payload r of Submissions es role \<Rightarrow> es | SubmissionsOnly es \<Rightarrow> es | _ \<Rightarrow> [])"

definition successIn :: "string \<Rightarrow> PromptSubmission list \<Rightarrow> nat" where
  "successIn r xs = length (filter (\<lambda>s. p_status s = SUCCESS \<and> rootOf s = r) xs)"

section \<open>Frames and invariants\<close>

subsection \<open>Sessions\<close>




lemma joinSession_db: "snd (joinSession_POST v k b db) = db"
  by (auto simp: joinSession_POST_def split: option.splits)




lemma listSubmissions_db: "snd (listSubmissions_GET ck db) = db"
  by (auto simp: listSubmissions_GET_def Let_def split: option.splits)







subsection \<open>Lineage\<close>

lemma lineage_wf_iff:
  "lineage_wf db \<longleftrightarrow>
     distinct (map p_id (promptSubmissionT db)) \<and>
     (\<forall>s \<in> set (promptSubmissionT db). \<forall>r. p_rootSubmissionId s = Some r \<longrightarrow>
        (\<exists>t \<in> set (promptSubmissionT db). p_id t = r \<and> p_sessionId t = p_sessionId s \<and>
            p_rootSubmissionId t = None \<and> p_studentId t = p_studentId s))"
  by (auto simp: lineage_wf_def list_all_iff list_ex_iff split: option.splits)

lemma findSubmission_Some:
  "findSubmission i db = Some s \<Longrightarrow> s \<in> set (promptSubmissionT db) \<and> p_id s = i"
  by (auto simp: findSubmission_def find_Some_iff)

lemma distinct_ids_eq:
  "distinct (map p_id xs) \<Longrightarrow> s \<in> set xs \<Longrightarrow> t \<in> set xs \<Longrightarrow> p_id s = p_id t \<Longrightarrow> s = t"
  by (meson distinct_map inj_onD)

lemma chain_in_session:
  assumes wf: "lineage_wf db"
    and p: "parent \<in> set (promptSubmissionT db)"
    and s: "s \<in> set (promptSubmissionT db)"
    and m: "p_id s = rootOf parent \<or> p_rootSubmissionId s = Some (rootOf parent)"
  shows "p_sessionId s = p_sessionId parent"
proof -
  from wf have d: "distinct (map p_id (promptSubmissionT db))"
    and r: "\<And>x r. x \<in> set (promptSubmissionT db) \<Longrightarrow> p_rootSubmissionId x = Some r \<Longrightarrow>
        \<exists>t \<in> set (promptSubmissionT db). p_id t = r \<and> p_sessionId t = p_sessionId x"
    by (auto simp: lineage_wf_iff)
  obtain t where t: "t \<in> set (promptSubmissionT db)" "p_id t = rootOf parent"
      "p_sessionId t = p_sessionId parent"
  proof (cases "p_rootSubmissionId parent")
    case None
    then show ?thesis using p that[of parent] by (simp add: rootOf_def orElse_def)
  next
    case (Some q)
    then show ?thesis using r[OF p Some] that by (auto simp: rootOf_def orElse_def)
  qed
  from m show ?thesis
  proof
    assume "p_id s = rootOf parent"
    then have "s = t" using distinct_ids_eq[OF d s t(1)] t(2) by simp
    then show ?thesis using t(3) by simp
  next
    assume a: "p_rootSubmissionId s = Some (rootOf parent)"
    from r[OF s a] obtain u where u: "u \<in> set (promptSubmissionT db)" "p_id u = rootOf parent"
      "p_sessionId u = p_sessionId s" by blast
    have "u = t" using distinct_ids_eq[OF d u(1) t(1)] u(2) t(2) by simp
    then show ?thesis using u(3) t(3) by simp
  qed
qed

lemma chainCount_eq_live:
  assumes wf: "lineage_wf db" and p: "parent \<in> set (promptSubmissionT db)"
  shows "chainCount (p_sessionId parent) (rootOf parent) db
           = length (filter live (chainOf (rootOf parent) db))"
proof -
  have "filter (\<lambda>s. p_sessionId s = p_sessionId parent \<and>
            (p_id s = rootOf parent \<or> p_rootSubmissionId s = Some (rootOf parent)) \<and>
            (p_status s = PENDING \<or> p_status s = SUCCESS)) (promptSubmissionT db)
      = filter (\<lambda>s. (p_id s = rootOf parent \<or> p_rootSubmissionId s = Some (rootOf parent)) \<and>
            live s) (promptSubmissionT db)"
    by (rule filter_cong[OF refl]) (use chain_in_session[OF wf p] in \<open>auto simp: live_def\<close>)
  then show ?thesis
    by (simp add: chainCount_def chainOf_def conj_commute)
qed

lemma root_exists:
  assumes wf: "lineage_wf db" and p: "parent \<in> set (promptSubmissionT db)"
  shows "rootOf parent \<in> set (map p_id (promptSubmissionT db))"
proof (cases "p_rootSubmissionId parent")
  case None
  then show ?thesis using p by (auto simp: rootOf_def orElse_def)
next
  case (Some r)
  then show ?thesis using wf p by (force simp: lineage_wf_iff rootOf_def orElse_def)
qed

lemma find_active_Some:
  "\<exists>s \<in> set (sessionT db). s_id s = i \<and> s_isActive s \<Longrightarrow>
   \<exists>x. find (\<lambda>s. s_id s = i \<and> s_isActive s) (sessionT db) = Some x \<and> s_id x = i
        \<and> x \<in> set (sessionT db)"
  by (cases "find (\<lambda>s. s_id s = i \<and> s_isActive s) (sessionT db)")
     (auto simp: find_None_iff find_Some_iff)

lemma update_absent:
  "i \<notin> set (map p_id xs) \<Longrightarrow> map (\<lambda>s. if p_id s = i then f s else s) xs = xs"
  by (induction xs) auto

lemma resolveParent_ok:
  assumes "findSubmission pid db = Some parent" "p_sessionId parent = sid"
    "p_studentId parent = Some stid" "truthy (p_imageData parent)"
  shows "resolveParent sid stid pid db =
     (if 3 \<le> chainCount sid (rootOf parent) db
      then Inl (json 400 (Message ''This image has no refinements remaining.''))
      else Inr (rootOf parent, chainCount sid (rootOf parent) db,
                ''data:'' @ orElse (p_imageMimeType parent) ''image/png'' @ '';base64,''
                  @ the (p_imageData parent)))"
  using assms by (simp add: resolveParent_def Let_def rootOf_def)


lemma lineage_wf_cong:
  "promptSubmissionT db' = promptSubmissionT db \<Longrightarrow> lineage_wf db' = lineage_wf db"
  by (simp add: lineage_wf_iff)

lemma lineage_wf_update:
  assumes wf: "lineage_wf db"
    and f: "\<And>s. p_id (f s) = p_id s \<and> p_rootSubmissionId (f s) = p_rootSubmissionId s
                \<and> p_sessionId (f s) = p_sessionId s \<and> p_studentId (f s) = p_studentId s"
  shows "lineage_wf (updatePromptSubmission i f db)"
proof -
  let ?g = "\<lambda>s. if p_id s = i then f s else s"
  have g: "p_id (?g s) = p_id s" "p_rootSubmissionId (?g s) = p_rootSubmissionId s"
    "p_sessionId (?g s) = p_sessionId s" "p_studentId (?g s) = p_studentId s" for s
    using f by auto
  have eq: "promptSubmissionT (updatePromptSubmission i f db) = map ?g (promptSubmissionT db)"
    by (simp add: updatePromptSubmission_def)
  have ids: "map p_id (map ?g (promptSubmissionT db)) = map p_id (promptSubmissionT db)"
    using g(1) by (simp add: comp_def)
  show ?thesis
    unfolding lineage_wf_iff eq
  proof (intro conjI ballI allI impI)
    show "distinct (map p_id (map ?g (promptSubmissionT db)))"
      by (simp only: ids) (use wf in \<open>simp add: lineage_wf_iff\<close>)
  next
    fix s r
    assume s: "s \<in> set (map ?g (promptSubmissionT db))" and r: "p_rootSubmissionId s = Some r"
    then obtain s0 where s0: "s0 \<in> set (promptSubmissionT db)" "s = ?g s0" by auto
    then have "p_rootSubmissionId s0 = Some r" using r g(2)[of s0] by simp
    with wf s0(1) obtain t where t: "t \<in> set (promptSubmissionT db)" "p_id t = r"
      "p_sessionId t = p_sessionId s0" "p_rootSubmissionId t = None"
      "p_studentId t = p_studentId s0"
      by (auto simp: lineage_wf_iff)
    have "?g t \<in> set (map ?g (promptSubmissionT db))" using t(1) by simp
    moreover have "p_id (?g t) = r" using t(2) g(1)[of t] by simp
    moreover have "p_sessionId (?g t) = p_sessionId s"
      using t(3) s0(2) g(3)[of t] g(3)[of s0] by simp
    moreover have "p_rootSubmissionId (?g t) = None" using t(4) g(2)[of t] by simp
    moreover have "p_studentId (?g t) = p_studentId s"
      using t(5) s0(2) g(4)[of t] g(4)[of s0] by simp
    ultimately show "\<exists>t \<in> set (map ?g (promptSubmissionT db)). p_id t = r \<and>
        p_sessionId t = p_sessionId s \<and> p_rootSubmissionId t = None \<and>
        p_studentId t = p_studentId s"
      by blast
  qed
qed

lemma lineage_wf_create:
  assumes wf: "lineage_wf db"
    and cr: "createPromptSubmission row db = Some db'"
    and root: "\<And>r. p_rootSubmissionId row = Some r \<Longrightarrow>
        \<exists>t \<in> set (promptSubmissionT db). p_id t = r \<and> p_sessionId t = p_sessionId row \<and>
          p_rootSubmissionId t = None \<and> p_studentId t = p_studentId row"
  shows "lineage_wf db'"
proof -
  from cr have fresh: "p_id row \<notin> set (map p_id (promptSubmissionT db))"
    and db': "promptSubmissionT db' = promptSubmissionT db @ [row]"
    by (auto simp: createPromptSubmission_def split: if_splits)
  show ?thesis
    unfolding lineage_wf_iff db'
  proof (intro conjI ballI allI impI)
    show "distinct (map p_id (promptSubmissionT db @ [row]))"
      using wf fresh by (simp add: lineage_wf_iff)
  next
    fix s r
    assume s: "s \<in> set (promptSubmissionT db @ [row])" and r: "p_rootSubmissionId s = Some r"
    have "\<exists>t \<in> set (promptSubmissionT db). p_id t = r \<and> p_sessionId t = p_sessionId s \<and>
            p_rootSubmissionId t = None \<and> p_studentId t = p_studentId s"
    proof (cases "s = row")
      case True
      then show ?thesis using root r by simp
    next
      case False
      then have "s \<in> set (promptSubmissionT db)" using s by simp
      then show ?thesis using wf r by (auto simp: lineage_wf_iff)
    qed
    then show "\<exists>t \<in> set (promptSubmissionT db @ [row]). p_id t = r \<and>
        p_sessionId t = p_sessionId s \<and> p_rootSubmissionId t = None \<and>
        p_studentId t = p_studentId s"
      by auto
  qed
qed

lemma resolveParent_Inr:
  assumes "resolveParent sid stid pid db = Inr (rootId, n, url)"
  shows "\<exists>parent. findSubmission pid db = Some parent \<and> p_sessionId parent = sid \<and>
           p_studentId parent = Some stid \<and> rootId = rootOf parent"
  using assms
  by (auto simp: resolveParent_def Let_def rootOf_def split: option.splits if_splits)

lemma root_is_original:
  assumes wf: "lineage_wf db" and p: "parent \<in> set (promptSubmissionT db)"
  shows "\<exists>t \<in> set (promptSubmissionT db). p_id t = rootOf parent \<and>
           p_sessionId t = p_sessionId parent \<and> p_rootSubmissionId t = None \<and>
           p_studentId t = p_studentId parent"
proof (cases "p_rootSubmissionId parent")
  case None
  then show ?thesis using p by (auto simp: rootOf_def orElse_def)
next
  case (Some r)
  then show ?thesis using wf p by (auto simp: lineage_wf_iff rootOf_def orElse_def)
qed

lemma lineage_root_in_session:
  assumes wf: "lineage_wf db"
    and lin: "lineage sid stid par db = Inr (Some r, n, url)"
  shows "\<exists>t \<in> set (promptSubmissionT db). p_id t = r \<and> p_sessionId t = sid \<and>
           p_rootSubmissionId t = None \<and> p_studentId t = Some stid"
proof -
  from lin obtain u where "resolveParent sid stid (the par) db = Inr (r, n, u)"
    by (auto simp: lineage_def split: if_splits sum.splits)
  from resolveParent_Inr[OF this] obtain parent where
    p: "findSubmission (the par) db = Some parent" "p_sessionId parent = sid"
       "p_studentId parent = Some stid" "r = rootOf parent"
    by blast
  then have pin: "parent \<in> set (promptSubmissionT db)" using findSubmission_Some by blast
  from root_is_original[OF wf pin] show ?thesis using p by simp
qed

text \<open>What a generate request leaves behind: the store as it was, or the store with the
  new row created and then updated in its result columns.\<close>

lemma generate_db_cases:
  "snd (generate_POST c i now ck b db) = db \<or>
   (\<exists>rootOpt n url db1 f.
      lineage (the (c_sessionId ck)) (the (c_studentId ck)) (g_parentSubmissionId b) db
        = Inr (rootOpt, n, url) \<and>
      createPromptSubmission
        (pendingSubmission i now (the (c_sessionId ck)) (the (c_studentId ck)) b rootOpt n) db
        = Some db1 \<and>
      snd (generate_POST c i now ck b db) = updatePromptSubmission i f db1 \<and>
      (\<forall>s. p_id (f s) = p_id s \<and> p_rootSubmissionId (f s) = p_rootSubmissionId s \<and>
           p_sessionId (f s) = p_sessionId s \<and> p_studentId (f s) = p_studentId s))"
  unfolding generate_POST_def Let_def
  by (simp split: option.split sum.split prod.split) fastforce

lemma generate_lineage_wf:
  assumes wf: "lineage_wf db"
  shows "lineage_wf (snd (generate_POST c i now ck b db))"
proof -
  from generate_db_cases[of c i now ck b db]
  show ?thesis
  proof
    assume "snd (generate_POST c i now ck b db) = db"
    then show ?thesis using wf by simp
  next
    assume "\<exists>rootOpt n url db1 f.
      lineage (the (c_sessionId ck)) (the (c_studentId ck)) (g_parentSubmissionId b) db
        = Inr (rootOpt, n, url) \<and>
      createPromptSubmission
        (pendingSubmission i now (the (c_sessionId ck)) (the (c_studentId ck)) b rootOpt n) db
        = Some db1 \<and>
      snd (generate_POST c i now ck b db) = updatePromptSubmission i f db1 \<and>
      (\<forall>s. p_id (f s) = p_id s \<and> p_rootSubmissionId (f s) = p_rootSubmissionId s \<and>
           p_sessionId (f s) = p_sessionId s \<and> p_studentId (f s) = p_studentId s)"
    then obtain rootOpt n url db1 f where
      lin: "lineage (the (c_sessionId ck)) (the (c_studentId ck)) (g_parentSubmissionId b) db
              = Inr (rootOpt, n, url)"
      and cr: "createPromptSubmission
        (pendingSubmission i now (the (c_sessionId ck)) (the (c_studentId ck)) b rootOpt n) db
        = Some db1"
      and res: "snd (generate_POST c i now ck b db) = updatePromptSubmission i f db1"
      and f: "\<And>s. p_id (f s) = p_id s \<and> p_rootSubmissionId (f s) = p_rootSubmissionId s \<and>
           p_sessionId (f s) = p_sessionId s \<and> p_studentId (f s) = p_studentId s"
      by blast
    have "lineage_wf db1"
    proof (rule lineage_wf_create[OF wf cr])
      fix r
      assume "p_rootSubmissionId
          (pendingSubmission i now (the (c_sessionId ck)) (the (c_studentId ck)) b rootOpt n)
            = Some r"
      then have "rootOpt = Some r" by (simp add: pendingSubmission_def)
      with lin lineage_root_in_session[OF wf] show
        "\<exists>t\<in>set (promptSubmissionT db). p_id t = r \<and> p_sessionId t =
           p_sessionId (pendingSubmission i now (the (c_sessionId ck)) (the (c_studentId ck)) b rootOpt n)
           \<and> p_rootSubmissionId t = None
           \<and> p_studentId t =
             p_studentId (pendingSubmission i now (the (c_sessionId ck)) (the (c_studentId ck)) b rootOpt n)"
        by (simp add: pendingSubmission_def)
    qed
    then show ?thesis using res lineage_wf_update[OF _ f] by simp
  qed
qed

lemma setShared_lineage_wf:
  "lineage_wf db \<Longrightarrow> lineage_wf (snd (setShared_POST c ck b db))"
  by (auto simp: setShared_POST_def split: option.splits intro!: lineage_wf_update)

lemma createThread_subs:
  "promptSubmissionT (snd (createThread_POST i now ck b db)) = promptSubmissionT db"
  by (auto simp: createThread_POST_def Let_def createChatThread_def split: option.splits if_splits)

lemma postMessage_subs:
  "promptSubmissionT (snd (postMessage_POST c e ids now later tid ck b db)) = promptSubmissionT db"
  by (auto simp: postMessage_POST_def Let_def createChatMessage_def
      split: option.splits sum.splits if_splits)

lemma startSession_subs:
  "promptSubmissionT (snd (startSession_POST h i now pw db)) = promptSubmissionT db"
  by (auto simp: startSession_POST_def Let_def createSession_def endExistingSessions_def
      split: option.splits if_splits)

lemma endSession_subs:
  "promptSubmissionT (snd (endSession_POST now ck db)) = promptSubmissionT db"
  by (auto simp: endSession_POST_def)

lemma createLoop_subs:
  "createLoop h ids now sid i k used src db creds = Returned (db', creds') \<Longrightarrow>
   promptSubmissionT db' = promptSubmissionT db"
  by (induction k arbitrary: i used src db creds)
     (auto simp: createStudent_def Let_def split: option.splits list.splits if_splits prod.splits)

lemma generateStudents_subs:
  "generateStudents_POST h ids now src ck n db = Some (r, db') \<Longrightarrow>
   promptSubmissionT db' = promptSubmissionT db"
  by (auto simp: generateStudents_POST_def Let_def split: if_splits Outcome.splits
      dest: createLoop_subs)

lemma reachable_lineage_wf: "reachable db \<Longrightarrow> lineage_wf db"
proof (induction rule: reachable.induct)
  case init
  then show ?case by (simp add: lineage_wf_def emptyDb_def)
next
  case (startSession db hashPassword newId now password)
  then show ?case using lineage_wf_cong[OF startSession_subs] by blast
next
  case (joinSession db verifyPassword requiredKey jbody)
  then show ?case by (simp add: joinSession_db)
next
  case (endSession db now ck)
  then show ?case using lineage_wf_cong[OF endSession_subs] by blast
next
  case (generate db callOpenRouter newId now ck gbody)
  then show ?case by (simp add: generate_lineage_wf)
next
  case (setShared db isCuid ck sbody)
  then show ?case by (simp add: setShared_lineage_wf)
next
  case (listSubmissions db ck)
  then show ?case by (simp add: listSubmissions_db)
next
  case (createThread db newId now ck bodyTitle)
  then show ?case using lineage_wf_cong[OF createThread_subs] by blast
next
  case (postMessage db callChatCompletion dbError newIds now later threadId ck bodyContent)
  then show ?case using lineage_wf_cong[OF postMessage_subs] by blast
next
  case (generateStudents db hashPassword newIds now src ck count r db')
  then show ?case using lineage_wf_cong[OF generateStudents_subs] by blast
qed

subsection \<open>The example store is reachable\<close>

lemma exStudents:
  "generateStudents_POST exHash exIds 20 exBytes exTeacher 2 exDb1
   = Some (json 200 (Credentials [(''AAAAAAAA'', ''BBBBBBBB''), (''CCCCCCCC'', ''DDDDDDDD'')]),
           exDb2)"
  by code_simp

lemma exDb_steps:
  "exDb = snd (setShared_POST (\<lambda>i. True) (exStudentCk ''st1'')
                 \<lparr>sh_submissionId = ''sub0'', sh_share = True\<rparr> exDb4)"
  by code_simp

lemma exDb_reachable: "reachable exDb"
proof -
  have "reachable exDb1" unfolding exDb1_def by (intro reachable.startSession reachable.init)
  then have "reachable exDb2" using exStudents by (rule reachable.generateStudents)
  then have "reachable exDb3" unfolding exDb3_def by (rule reachable.generate)
  then have "reachable exDb4" unfolding exDb4_def by (rule reachable.generate)
  then show ?thesis unfolding exDb_steps by (rule reachable.setShared)
qed

subsection \<open>Lookups, inserts and the example stores\<close>

lemma findSubmission_None_or_other:
  assumes "\<forall>s \<in> set (promptSubmissionT db). p_id s = pid \<longrightarrow> p_sessionId s \<noteq> sid"
  shows "findSubmission pid db = None \<or>
         (\<exists>p. findSubmission pid db = Some p \<and> p_sessionId p \<noteq> sid)"
proof (cases "findSubmission pid db")
  case None
  then show ?thesis by simp
next
  case (Some p)
  then show ?thesis using assms findSubmission_Some[OF Some] by auto
qed

lemma exDb5_eq:
  "exDb5 = exDb\<lparr>promptSubmissionT := promptSubmissionT exDb @
      [\<lparr>p_id = ''sub2'', p_sessionId = ''sess1'', p_prompt = ''a blue kite'', p_role = ''STUDENT'',
        p_createdAt = 50, p_studentId = Some ''st1'', p_rootSubmissionId = Some ''sub0'',
        p_parentSubmissionId = Some ''sub1'', p_revisionIndex = 2, p_status = ERROR,
        p_imageData = None, p_imageMimeType = None,
        p_errorMessage = Some ''Rate limit exceeded'', p_isShared = False\<rparr>]\<rparr>"
  by code_simp

lemma exDb5_reachable: "reachable exDb5"
  unfolding exDb5_def using exDb_reachable by (rule reachable.generate)

lemma createPromptSubmission_Some:
  "createPromptSubmission row db = Some db1 \<Longrightarrow>
   db1 = db\<lparr>promptSubmissionT := promptSubmissionT db @ [row]\<rparr> \<and>
   p_id row \<notin> set (map p_id (promptSubmissionT db))"
  by (auto simp: createPromptSubmission_def split: if_splits)

lemma exDbT_reachable: "reachable (exDbT k)"
  by (induction k) (auto intro: exDb5_reachable reachable.createThread)

lemma exDbT_threads:
  "chatThreadT (exDbT 4) =
     [newThread ''thread1'' 80 ''sess1'' ''st1'' ''Conversation 1'',
      newThread ''thread2'' 80 ''sess1'' ''st1'' ''Conversation 2'',
      newThread ''thread3'' 80 ''sess1'' ''st1'' ''Conversation 3'',
      newThread ''thread4'' 80 ''sess1'' ''st1'' ''Conversation 4'']"
  by code_simp

lemma exDbT_frame:
  "sessionT (exDbT k) = sessionT exDb5 \<and> studentT (exDbT k) = studentT exDb5"
  by (induction k)
     (auto simp: createThread_POST_def Let_def createChatThread_def split: option.splits if_splits)

lemma createChatMessage_Some:
  "createChatMessage row db = Some db1 \<Longrightarrow>
   db1 = db\<lparr>chatMessageT := chatMessageT db @ [row]\<rparr>"
  by (auto simp: createChatMessage_def split: if_splits)

lemma exDb6_eq:
  "exDb6 = exDb\<lparr>promptSubmissionT := promptSubmissionT exDb @
      [\<lparr>p_id = ''sub2'', p_sessionId = ''sess1'', p_prompt = ''a blue kite'', p_role = ''STUDENT'',
        p_createdAt = 50, p_studentId = Some ''st1'', p_rootSubmissionId = Some ''sub0'',
        p_parentSubmissionId = Some ''sub1'', p_revisionIndex = 2, p_status = SUCCESS,
        p_imageData = Some ''aW1n'', p_imageMimeType = Some ''image/png'',
        p_errorMessage = None, p_isShared = False\<rparr>]\<rparr>"
  by code_simp

lemma exDb6_reachable: "reachable exDb6"
  unfolding exDb6_def using exDb_reachable by (rule reachable.generate)

subsection \<open>Credential generation\<close>

lemma sessionUsernames_alt:
  "sessionUsernames sid db = map lowerName (filter (\<lambda>st. st_sessionId st = sid) (studentT db))"
  by (simp add: sessionUsernames_def lowerName_def)

lemma pickUsername_Some:
  "pickUsername used src = Some (u, src1) \<Longrightarrow> toLowerCase u \<notin> set used"
  by (induction src) (auto split: if_splits)

lemma createStudent_Some:
  "createStudent row db = Some db1 \<Longrightarrow>
   db1 = db\<lparr>studentT := studentT db @ [row]\<rparr>"
  by (auto simp: createStudent_def split: if_splits)

lemma createLoop_returned:
  assumes "createLoop h ids now sid i k used src db creds = Returned (db', creds')"
  shows "\<exists>new. db' = db\<lparr>studentT := studentT db @ new\<rparr> \<and> length new = k \<and>
           (\<forall>st \<in> set new. st_sessionId st = sid) \<and>
           distinct (map lowerName new) \<and>
           set (map lowerName new) \<inter> set used = {} \<and>
           map fst creds' = map fst creds @ map st_username new"
  using assms
proof (induction k arbitrary: i used src db creds)
  case 0
  then show ?case by (intro exI[of _ "[]"]) simp
next
  case (Suc k)
  from Suc.prems obtain u src1 bytes src2 db1 where
    pick: "pickUsername used src = Some (u, src1)" and src1: "src1 = bytes # src2"
    and cr: "createStudent \<lparr>st_id = ids i, st_username = u,
               st_passwordHash = h (randomCode bytes), st_createdAt = now,
               st_sessionId = sid\<rparr> db = Some db1"
    and rest: "createLoop h ids now sid (Suc i) k (toLowerCase u # used) src2 db1
                 (creds @ [(u, randomCode bytes)]) = Returned (db', creds')"
    by (auto simp: Let_def split: option.splits list.splits prod.splits)
  let ?row = "\<lparr>st_id = ids i, st_username = u, st_passwordHash = h (randomCode bytes),
               st_createdAt = now, st_sessionId = sid\<rparr>"
  from Suc.IH[OF rest] obtain new where
    new: "db' = db1\<lparr>studentT := studentT db1 @ new\<rparr>" "length new = k"
      "\<forall>st \<in> set new. st_sessionId st = sid" "distinct (map lowerName new)"
      "set (map lowerName new) \<inter> set (toLowerCase u # used) = {}"
      "map fst creds' = map fst (creds @ [(u, randomCode bytes)]) @ map st_username new"
    by (elim exE conjE) blast
  have db1: "db1 = db\<lparr>studentT := studentT db @ [?row]\<rparr>"
    using createStudent_Some[OF cr] .
  have fresh: "toLowerCase u \<notin> set used" using pickUsername_Some[OF pick] .
  have low: "lowerName ?row = toLowerCase u" by (simp add: lowerName_def)
  show ?case
  proof (intro exI[of _ "?row # new"] conjI)
    show "db' = db\<lparr>studentT := studentT db @ ?row # new\<rparr>" using new(1) db1 by simp
    show "length (?row # new) = Suc k" using new(2) by simp
    show "\<forall>st \<in> set (?row # new). st_sessionId st = sid" using new(3) by simp
    show "distinct (map lowerName (?row # new))" using new(4,5) low by auto
    show "set (map lowerName (?row # new)) \<inter> set used = {}" using new(5) fresh low by auto
    show "map fst creds' = map fst creds @ map st_username (?row # new)" using new(6) by simp
  qed
qed

lemma generateStudents_returned:
  assumes "generateStudents_POST h ids now src ck count db = Some (r, db')" "status r = 200"
  shows "1 \<le> count \<and> count \<le> 50 \<and>
         (\<exists>new. db' = db\<lparr>studentT := studentT db @ new\<rparr> \<and> int (length new) = count \<and>
            (\<forall>st \<in> set new. Some (st_sessionId st) = c_sessionId ck) \<and>
            distinct (map lowerName new) \<and>
            set (map lowerName new) \<inter> set (sessionUsernames (the (c_sessionId ck)) db) = {} \<and>
            (\<exists>creds. payload r = Credentials creds \<and> map fst creds = map st_username new))"
proof -
  from assms have g: "truthy (c_sessionId ck)" "1 \<le> count" "count \<le> 50"
    by (auto simp: generateStudents_POST_def json_def split: if_splits)
  then obtain sid where sid: "c_sessionId ck = Some sid" by (auto simp: truthy_def split: option.splits)
  from assms g obtain creds where
    loop: "createLoop h ids now sid 0 (nat count) (sessionUsernames sid db) src db []
             = Returned (db', creds)" and r: "r = json 200 (Credentials creds)"
    by (auto simp: generateStudents_POST_def json_def sid sessionUsernames_def Let_def
        split: if_splits Outcome.splits)
  from createLoop_returned[OF loop] obtain new where
    new: "db' = db\<lparr>studentT := studentT db @ new\<rparr>" "length new = nat count"
      "\<forall>st \<in> set new. st_sessionId st = sid" "distinct (map lowerName new)"
      "set (map lowerName new) \<inter> set (sessionUsernames sid db) = {}"
      "map fst creds = map fst ([] :: (string \<times> string) list) @ map st_username new"
    by (elim exE conjE) blast
  show ?thesis
  proof (intro conjI exI[of _ new] exI[of _ creds])
    show "int (length new) = count" using new(2) g(2) by simp
  qed (use g new sid r in \<open>simp_all add: json_def\<close>)
qed

lemma sessionUsernames_append:
  "sessionUsernames sid (db\<lparr>studentT := studentT db @ new\<rparr>) =
     sessionUsernames sid db @ map lowerName (filter (\<lambda>st. st_sessionId st = sid) new)"
  by (simp add: sessionUsernames_alt)

lemma username_taken_lower:
  assumes "(sid, u) \<in> set (map (\<lambda>st. (st_sessionId st, st_username st)) (studentT db))"
  shows "toLowerCase u \<in> set (sessionUsernames sid db)"
  using assms by (auto simp: sessionUsernames_def)

lemma pickUsername_supplied:
  assumes "set used \<subseteq> set seen" and "n + collisions seen src < length src"
  shows "\<exists>u src1 seen1. pickUsername used src = Some (u, src1) \<and>
           toLowerCase u \<notin> set used \<and> set (toLowerCase u # used) \<subseteq> set seen1 \<and>
           n + collisions seen1 src1 \<le> length src1"
  using assms
proof (induction src arbitrary: seen)
  case Nil
  then show ?case by simp
next
  case (Cons b bs)
  let ?c = "toLowerCase (randomCode b)"
  show ?case
  proof (cases "?c \<in> set used")
    case True
    then have "?c \<in> set seen" using Cons.prems(1) by auto
    then have "n + collisions (?c # seen) bs < length bs" using Cons.prems(2) by simp
    moreover have "set used \<subseteq> set (?c # seen)" using Cons.prems(1) by auto
    ultimately obtain u src1 seen1 where
      "pickUsername used bs = Some (u, src1)" "toLowerCase u \<notin> set used"
      "set (toLowerCase u # used) \<subseteq> set seen1" "n + collisions seen1 src1 \<le> length src1"
      using Cons.IH[of "?c # seen"] by blast
    then show ?thesis using True by auto
  next
    case False
    have a: "n + collisions (?c # seen) bs \<le> length bs"
      using Cons.prems(2) by (simp split: if_splits)
    have b: "set (?c # used) \<subseteq> set (?c # seen)" using Cons.prems(1) by auto
    have c: "pickUsername used (b # bs) = Some (randomCode b, bs)" using False by simp
    show ?thesis
      by (intro exI[of _ "randomCode b"] exI[of _ bs] exI[of _ "?c # seen"] conjI c False b a)
  qed
qed

lemma createLoop_returns_supplied:
  assumes "set used \<subseteq> set seen"
    and "2 * k + collisions seen src \<le> length src"
    and "set (sessionUsernames sid db) \<subseteq> set used"
    and "sid \<in> set (map s_id (sessionT db))"
    and "inj_on ids {i..<i + k}"
    and "\<forall>j \<in> {i..<i + k}. ids j \<notin> set (map st_id (studentT db))"
  shows "\<exists>db' creds'. createLoop h ids now sid i k used src db creds = Returned (db', creds')"
  using assms
proof (induction k arbitrary: i used seen src db creds)
  case 0
  then show ?case by simp
next
  case (Suc k)
  have "(2 * k + 1) + collisions seen src < length src" using Suc.prems(2) by simp
  from pickUsername_supplied[OF Suc.prems(1) this] obtain u src1 seen1 where
    pick: "pickUsername used src = Some (u, src1)" and fresh: "toLowerCase u \<notin> set used"
    and sub1: "set (toLowerCase u # used) \<subseteq> set seen1"
    and len1: "(2 * k + 1) + collisions seen1 src1 \<le> length src1"
    by blast
  from len1 obtain p src2 where src1: "src1 = p # src2" by (cases src1) auto
  let ?row = "\<lparr>st_id = ids i, st_username = u, st_passwordHash = h (randomCode p),
               st_createdAt = now, st_sessionId = sid\<rparr>"
  let ?db1 = "db\<lparr>studentT := studentT db @ [?row]\<rparr>"
  have idi: "ids i \<notin> set (map st_id (studentT db))" using Suc.prems(6) by simp
  have uniq: "(sid, u) \<notin> set (map (\<lambda>st. (st_sessionId st, st_username st)) (studentT db))"
    using username_taken_lower[of sid u db] fresh Suc.prems(3) by blast
  have cr: "createStudent ?row db = Some ?db1"
    using idi uniq Suc.prems(4) by (simp add: createStudent_def)
  have "\<exists>db' creds'. createLoop h ids now sid (Suc i) k (toLowerCase u # used) src2 ?db1
          (creds @ [(u, randomCode p)]) = Returned (db', creds')"
  proof (rule Suc.IH[where seen = "toLowerCase (randomCode p) # seen1"])
    show "set (toLowerCase u # used) \<subseteq> set (toLowerCase (randomCode p) # seen1)"
      using sub1 by auto
    show "2 * k + collisions (toLowerCase (randomCode p) # seen1) src2 \<le> length src2"
      using len1 by (simp add: src1 split: if_splits)
    show "set (sessionUsernames sid ?db1) \<subseteq> set (toLowerCase u # used)"
      using Suc.prems(3) by (auto simp: sessionUsernames_append lowerName_def)
    show "sid \<in> set (map s_id (sessionT ?db1))" using Suc.prems(4) by simp
    show "inj_on ids {Suc i..<Suc i + k}"
      using Suc.prems(5) by (rule inj_on_subset) auto
    show "\<forall>j \<in> {Suc i..<Suc i + k}. ids j \<notin> set (map st_id (studentT ?db1))"
    proof
      fix j assume j: "j \<in> {Suc i..<Suc i + k}"
      then have "ids j \<noteq> ids i"
        using inj_onD[OF Suc.prems(5), of j i] by auto
      moreover have "ids j \<notin> set (map st_id (studentT db))" using Suc.prems(6) j by auto
      ultimately show "ids j \<notin> set (map st_id (studentT ?db1))" by auto
    qed
  qed
  then show ?case using pick cr by (simp add: Let_def src1)
qed

lemma generateStudents_returns_supplied:
  assumes "c_sessionId ck = Some sid" "sid \<noteq> []" "c_role ck = Some ''teacher''"
    and "1 \<le> count" "count \<le> 50"
    and "sid \<in> set (map s_id (sessionT db))"
    and "inj_on ids {0..<nat count}"
    and "\<forall>j \<in> {0..<nat count}. ids j \<notin> set (map st_id (studentT db))"
    and "2 * nat count + collisions (sessionUsernames sid db) src \<le> length src"
  shows "\<exists>r db'. generateStudents_POST h ids now src ck count db = Some (r, db') \<and> status r = 200"
proof -
  have "\<exists>db' creds'. createLoop h ids now sid 0 (nat count) (sessionUsernames sid db) src db []
          = Returned (db', creds')"
    by (rule createLoop_returns_supplied[where seen = "sessionUsernames sid db"])
       (use assms in simp_all)
  then show ?thesis using assms(1-5)
    by (auto simp: generateStudents_POST_def truthy_def Let_def sessionUsernames_def json_def)
qed

lemma startSession_students: "studentT (snd (startSession_POST h i now pw db)) = studentT db"
  by (auto simp: startSession_POST_def Let_def createSession_def endExistingSessions_def
      split: option.splits if_splits)

lemma endSession_students: "studentT (snd (endSession_POST now ck db)) = studentT db"
  by (auto simp: endSession_POST_def)

lemma generate_students: "studentT (snd (generate_POST c i now ck b db)) = studentT db"
  using generate_db_cases[of c i now ck b db]
  by (auto simp: updatePromptSubmission_def dest!: createPromptSubmission_Some)

lemma setShared_students: "studentT (snd (setShared_POST c ck b db)) = studentT db"
  by (auto simp: setShared_POST_def updatePromptSubmission_def split: option.splits)

lemma createThread_students: "studentT (snd (createThread_POST i now ck b db)) = studentT db"
  by (auto simp: createThread_POST_def Let_def createChatThread_def split: option.splits if_splits)

lemma postMessage_students:
  "studentT (snd (postMessage_POST c e ids now later tid ck b db)) = studentT db"
  by (auto simp: postMessage_POST_def Let_def createChatMessage_def
      split: option.splits sum.splits if_splits)

lemma sessionUsernames_cong:
  "studentT db' = studentT db \<Longrightarrow> sessionUsernames sid db' = sessionUsernames sid db"
  by (simp add: sessionUsernames_def)

lemma generateStudents_usernames:
  assumes gen: "generateStudents_POST h ids now src ck count db = Some (r, db')"
    and d: "distinct (sessionUsernames sid db)"
  shows "distinct (sessionUsernames sid db')"
proof (cases "status r = 200")
  case True
  from generateStudents_returned[OF gen True] obtain new where
    new: "db' = db\<lparr>studentT := studentT db @ new\<rparr>"
      "\<forall>st \<in> set new. Some (st_sessionId st) = c_sessionId ck"
      "distinct (map lowerName new)"
      "set (map lowerName new) \<inter> set (sessionUsernames (the (c_sessionId ck)) db) = {}"
    by (elim exE conjE) blast
  show ?thesis
  proof (cases "c_sessionId ck = Some sid")
    case True
    then have "filter (\<lambda>st. st_sessionId st = sid) new = new" using new(2) by (auto simp: filter_id_conv)
    then show ?thesis using d new(3,4) True
      by (simp add: new(1) sessionUsernames_append Int_commute)
  next
    case False
    then have "filter (\<lambda>st. st_sessionId st = sid) new = []" using new(2) by (auto simp: filter_empty_conv)
    then show ?thesis using d by (simp add: new(1) sessionUsernames_append)
  qed
next
  case False
  with gen have "db' = db"
    by (auto simp: generateStudents_POST_def json_def Let_def split: if_splits Outcome.splits)
  then show ?thesis using d by simp
qed

lemma reachable_usernames_distinct: "reachable db \<Longrightarrow> distinct (sessionUsernames sid db)"
proof (induction rule: reachable.induct)
  case init
  then show ?case by (simp add: sessionUsernames_def emptyDb_def)
next
  case (startSession db hashPassword newId now password)
  then show ?case using sessionUsernames_cong[OF startSession_students] by metis
next
  case (joinSession db verifyPassword requiredKey jbody)
  then show ?case by (simp add: joinSession_db)
next
  case (endSession db now ck)
  then show ?case using sessionUsernames_cong[OF endSession_students] by metis
next
  case (generate db callOpenRouter newId now ck gbody)
  then show ?case using sessionUsernames_cong[OF generate_students] by metis
next
  case (setShared db isCuid ck sbody)
  then show ?case using sessionUsernames_cong[OF setShared_students] by metis
next
  case (listSubmissions db ck)
  then show ?case by (simp add: listSubmissions_db)
next
  case (createThread db newId now ck bodyTitle)
  then show ?case using sessionUsernames_cong[OF createThread_students] by metis
next
  case (postMessage db callChatCompletion dbError newIds now later threadId ck bodyContent)
  then show ?case using sessionUsernames_cong[OF postMessage_students] by metis
next
  case (generateStudents db hashPassword newIds now src ck count r db')
  then show ?case using generateStudents_usernames by blast
qed

lemma exStudents2:
  "generateStudents_POST exHash (\<lambda>k. ''st3'') 60 exBytes2 exTeacher 1 exDb
   = Some (json 200 (Credentials [(''EEEEEEEE'', ''FFFFFFFF'')]),
           exDb\<lparr>studentT := studentT exDb @ [\<lparr>st_id = ''st3'', st_username = ''EEEEEEEE'',
              st_passwordHash = ''hash:FFFFFFFF'', st_createdAt = 60, st_sessionId = ''sess1''\<rparr>]\<rparr>)"
  by code_simp

subsection \<open>The gallery list\<close>

lemma successCounts_spec:
  "successCounts xs m r =
     (if successIn r xs = 0 then m r else Some (orElse (m r) 0 + successIn r xs))"
proof (induction xs arbitrary: m)
  case Nil
  then show ?case by (simp add: successIn_def)
next
  case (Cons s ss)
  show ?case
  proof (cases "p_status s = SUCCESS")
    case False
    then show ?thesis using Cons.IH[of m] by (simp add: successIn_def)
  next
    case True
    let ?m = "m(rootOf s \<mapsto> orElse (m (rootOf s)) 0 + 1)"
    have step: "successCounts (s # ss) m r = successCounts ss ?m r"
      using True by (simp add: Let_def rootOf_def)
    show ?thesis
    proof (cases "rootOf s = r")
      case same: True
      have sc: "successIn r (s # ss) = Suc (successIn r ss)"
        using True same by (simp add: successIn_def)
      have mr: "?m r = Some (orElse (m r) 0 + 1)" using same by simp
      have ih: "successCounts ss ?m r =
          (if successIn r ss = 0 then ?m r else Some (orElse (?m r) 0 + successIn r ss))"
        by (rule Cons.IH)
      show ?thesis by (simp only: step ih mr sc) (simp add: orElse_def)
    next
      case other: False
      have sc: "successIn r (s # ss) = successIn r ss" using other by (simp add: successIn_def)
      have mr: "?m r = m r" using other by simp
      have ih: "successCounts ss ?m r =
          (if successIn r ss = 0 then ?m r else Some (orElse (?m r) 0 + successIn r ss))"
        by (rule Cons.IH)
      show ?thesis by (simp only: step ih mr sc)
    qed
  qed
qed

lemma enrich_remaining:
  assumes "s \<in> set xs"
  shows "e_remainingEdits (enrich ck db (successCounts xs Map.empty) s)
           = max 0 (3 - int (successIn (rootOf s) xs))"
proof -
  let ?n = "successIn (rootOf s) xs"
  have c: "successCounts xs Map.empty (rootOf s) = (if ?n = 0 then None else Some ?n)"
    by (simp add: successCounts_spec orElse_def)
  have r: "e_remainingEdits (enrich ck db (successCounts xs Map.empty) s)
             = max 0 (3 - int (orElse (successCounts xs Map.empty (rootOf s))
                                 (if p_status s = SUCCESS then 1 else 0)))"
    by (simp add: enrich_def Let_def rootOf_def)
  have z: "p_status s \<noteq> SUCCESS" if "?n = 0"
    using that assms by (auto simp: successIn_def filter_empty_conv)
  have "orElse (if ?n = 0 then None else Some ?n) (if p_status s = SUCCESS then 1 else 0) = ?n"
    using z by (simp add: orElse_def)
  then show ?thesis by (simp only: r c)
qed

lemma successIn_newestFirst: "successIn r (newestFirst xs) = successIn r xs"
  by (simp add: successIn_def newestFirst_def rev_filter[symmetric] filter_sort)

text \<open>What the gallery list computes: the SUCCESS rows of the same root among the rows
  the caller is shown.\<close>

lemma list_remaining_visible:
  assumes "truthy (c_sessionId ck)"
    and "find (\<lambda>s. Some (s_id s) = c_sessionId ck \<and> s_isActive s) (sessionT db) = Some a"
    and "e \<in> set (enrichedOf (fst (listSubmissions_GET ck db)))"
  shows "visibleTo ck (e_submission e) \<and> e_submission e \<in> set (promptSubmissionT db) \<and>
         e_remainingEdits e =
           max 0 (3 - int (successIn (rootOf (e_submission e))
                             (filter (visibleTo ck) (promptSubmissionT db))))"
proof -
  let ?subs = "newestFirst (filter (visibleTo ck) (promptSubmissionT db))"
  from assms obtain s where s: "s \<in> set ?subs"
    and e: "e = enrich ck db (successCounts ?subs Map.empty) s"
    by (auto simp: listSubmissions_GET_def Let_def enrichedOf_def json_def)
  have es: "e_submission e = s" by (simp add: e enrich_def Let_def)
  have vis: "s \<in> set (filter (visibleTo ck) (promptSubmissionT db))"
    using s by (simp add: newestFirst_def)
  show ?thesis
    using enrich_remaining[OF s, of ck db] vis
    by (simp add: es e[symmetric] successIn_newestFirst)
qed

lemma rootOf_chain:
  assumes wf: "lineage_wf db" and s: "s \<in> set (promptSubmissionT db)"
    and x: "x \<in> set (promptSubmissionT db)"
  shows "rootOf x = rootOf s \<longleftrightarrow> (p_id x = rootOf s \<or> p_rootSubmissionId x = Some (rootOf s))"
proof
  assume "rootOf x = rootOf s"
  then show "p_id x = rootOf s \<or> p_rootSubmissionId x = Some (rootOf s)"
    by (cases "p_rootSubmissionId x") (auto simp: rootOf_def orElse_def)
next
  assume m: "p_id x = rootOf s \<or> p_rootSubmissionId x = Some (rootOf s)"
  from root_is_original[OF wf s] obtain t where t: "t \<in> set (promptSubmissionT db)"
    "p_id t = rootOf s" "p_rootSubmissionId t = None" by blast
  from wf have d: "distinct (map p_id (promptSubmissionT db))" by (simp add: lineage_wf_iff)
  from m show "rootOf x = rootOf s"
  proof
    assume "p_id x = rootOf s"
    then have "x = t" using distinct_ids_eq[OF d x t(1)] t(2) by simp
    then show ?thesis using t(2,3) by (simp add: rootOf_def orElse_def)
  next
    assume "p_rootSubmissionId x = Some (rootOf s)"
    then show ?thesis by (simp add: rootOf_def orElse_def)
  qed
qed

lemma chain_same_owner:
  assumes wf: "lineage_wf db" and s: "s \<in> set (promptSubmissionT db)"
    and x: "x \<in> set (promptSubmissionT db)" and r: "rootOf x = rootOf s"
  shows "p_studentId x = p_studentId s \<and> p_sessionId x = p_sessionId s"
proof -
  from wf have d: "distinct (map p_id (promptSubmissionT db))" by (simp add: lineage_wf_iff)
  from root_is_original[OF wf s] obtain t where t: "t \<in> set (promptSubmissionT db)"
    "p_id t = rootOf s" "p_studentId t = p_studentId s" "p_sessionId t = p_sessionId s" by blast
  from root_is_original[OF wf x] obtain u where u: "u \<in> set (promptSubmissionT db)"
    "p_id u = rootOf x" "p_studentId u = p_studentId x" "p_sessionId u = p_sessionId x" by blast
  have "u = t" using distinct_ids_eq[OF d u(1) t(1)] u(2) t(2) r by simp
  then show ?thesis using t(3,4) u(3,4) by simp
qed

text \<open>Where the whole chain is shown to the caller, the count of the list is the count
  over the chain: for a teacher, and for a student on the student's own submissions.\<close>

lemma list_remaining_whole_chain:
  assumes wf: "lineage_wf db"
    and ck: "truthy (c_sessionId ck)"
    and act: "find (\<lambda>s. Some (s_id s) = c_sessionId ck \<and> s_isActive s) (sessionT db) = Some a"
    and e: "e \<in> set (enrichedOf (fst (listSubmissions_GET ck db)))"
    and who: "c_role ck = Some ''teacher'' \<or>
              (truthy (c_studentId ck) \<and> p_studentId (e_submission e) = c_studentId ck)"
  shows "e_remainingEdits e =
           max 0 (3 - int (length (filter (\<lambda>s. p_status s = SUCCESS)
                                     (chainOf (rootOf (e_submission e)) db))))"
proof -
  let ?s = "e_submission e"
  from list_remaining_visible[OF ck act e] have
    vis: "visibleTo ck ?s" and sin: "?s \<in> set (promptSubmissionT db)"
    and rem: "e_remainingEdits e =
           max 0 (3 - int (successIn (rootOf ?s) (filter (visibleTo ck) (promptSubmissionT db))))"
    by simp_all
  have "filter (\<lambda>x. p_status x = SUCCESS \<and> rootOf x = rootOf ?s)
          (filter (visibleTo ck) (promptSubmissionT db))
      = filter (\<lambda>x. p_status x = SUCCESS) (chainOf (rootOf ?s) db)"
    unfolding chainOf_def filter_filter
  proof (rule filter_cong[OF refl])
    fix x assume x: "x \<in> set (promptSubmissionT db)"
    have iff: "rootOf x = rootOf ?s \<longleftrightarrow>
                 (p_id x = rootOf ?s \<or> p_rootSubmissionId x = Some (rootOf ?s))"
      by (rule rootOf_chain[OF wf sin x])
    have "visibleTo ck x" if r: "rootOf x = rootOf ?s" and st: "p_status x = SUCCESS"
    proof -
      from chain_same_owner[OF wf sin x r] have
        o: "p_studentId x = p_studentId ?s" "p_sessionId x = p_sessionId ?s" by simp_all
      from who show ?thesis
      proof
        assume "c_role ck = Some ''teacher''"
        then show ?thesis using vis o by (simp add: visibleTo_def)
      next
        assume "truthy (c_studentId ck) \<and> p_studentId ?s = c_studentId ck"
        then show ?thesis using vis o st by (simp add: visibleTo_def)
      qed
    qed
    then show "(visibleTo ck x \<and> p_status x = SUCCESS \<and> rootOf x = rootOf ?s)
             = ((p_id x = rootOf ?s \<or> p_rootSubmissionId x = Some (rootOf ?s)) \<and> p_status x = SUCCESS)"
      using iff by blast
  qed
  then show ?thesis using rem by (simp add: successIn_def)
qed

section \<open>Claims\<close>

text \<open>
  C1. A refinement request with a valid parent (an authenticated student of an active
  session, a prompt of at least five characters, a parent of the caller's session and
  identity that has image data) counts the members of the parent's chain (the rows whose
  id is the parent's root, or that name it as their root) that are PENDING or SUCCESS.
  With three or more, the request is answered with status 400, "This image has no
  refinements remaining.", and the store is unchanged. With fewer, and when the
  database accepts the insert (a fresh id, an existing student), exactly one row is
  added, with that count as its revision index and the parent's root as its root. The
  route's own count is restricted to the caller's session; in a store of well-formed
  lineage, as every reachable store is (\<open>reachable_lineage_wf\<close>), a chain lies in one
  session and the two counts agree.
\<close>

theorem refinement_limit:
  assumes ck: "c_sessionId ck = Some sid" "sid \<noteq> []" "c_role ck = Some ''student''"
              "c_studentId ck = Some stid" "stid \<noteq> []"
    and prompt: "5 \<le> length (g_prompt body)"
    and active: "\<exists>s \<in> set (sessionT db). s_id s = sid \<and> s_isActive s"
    and parent: "g_parentSubmissionId body = Some pid" "pid \<noteq> []"
                "findSubmission pid db = Some parent" "p_sessionId parent = sid"
                "p_studentId parent = Some stid" "truthy (p_imageData parent)"
    and wf: "lineage_wf db"
  shows "(3 \<le> length (filter live (chainOf (rootOf parent) db)) \<longrightarrow>
            generate_POST callOpenRouter newId now ck body db =
              (json 400 (Message ''This image has no refinements remaining.''), db))
       \<and> (length (filter live (chainOf (rootOf parent) db)) < 3 \<and>
          newId \<notin> set (map p_id (promptSubmissionT db)) \<and>
          stid \<in> set (map st_id (studentT db)) \<longrightarrow>
            (\<exists>row. promptSubmissionT (snd (generate_POST callOpenRouter newId now ck body db))
                     = promptSubmissionT db @ [row]
                 \<and> p_id row = newId
                 \<and> p_revisionIndex row = length (filter live (chainOf (rootOf parent) db))
                 \<and> p_rootSubmissionId row = Some (rootOf parent)
                 \<and> p_parentSubmissionId row = Some pid
                 \<and> p_sessionId row = sid \<and> p_studentId row = Some stid))"
proof -
  let ?n = "length (filter live (chainOf (rootOf parent) db))"
  from parent(3) have pin: "parent \<in> set (promptSubmissionT db)" and pidp: "p_id parent = pid"
    using findSubmission_Some by auto
  have cc: "chainCount sid (rootOf parent) db = ?n"
    using chainCount_eq_live[OF wf pin] parent(4) by simp
  from find_active_Some[OF active] obtain x where
    x: "find (\<lambda>s. s_id s = sid \<and> s_isActive s) (sessionT db) = Some x" "x \<in> set (sessionT db)"
       "s_id x = sid" by blast
  have rp: "resolveParent sid stid pid db =
     (if 3 \<le> ?n then Inl (json 400 (Message ''This image has no refinements remaining.''))
      else Inr (rootOf parent, ?n,
                ''data:'' @ orElse (p_imageMimeType parent) ''image/png'' @ '';base64,''
                  @ the (p_imageData parent)))"
    using resolveParent_ok[OF parent(3-6)] cc by simp
  have lin: "lineage sid stid (g_parentSubmissionId body) db =
     (if 3 \<le> ?n then Inl (json 400 (Message ''This image has no refinements remaining.''))
      else Inr (Some (rootOf parent), ?n,
                Some (''data:'' @ orElse (p_imageMimeType parent) ''image/png'' @ '';base64,''
                  @ the (p_imageData parent))))"
    using parent(1,2) rp by (simp add: lineage_def truthy_def)
  have A: "3 \<le> ?n \<longrightarrow> generate_POST callOpenRouter newId now ck body db =
              (json 400 (Message ''This image has no refinements remaining.''), db)"
    using ck prompt x(1) lin by (simp add: generate_POST_def truthy_def Let_def)
  have B: "\<exists>row. promptSubmissionT (snd (generate_POST callOpenRouter newId now ck body db))
                     = promptSubmissionT db @ [row]
                 \<and> p_id row = newId \<and> p_revisionIndex row = ?n
                 \<and> p_rootSubmissionId row = Some (rootOf parent)
                 \<and> p_parentSubmissionId row = Some pid
                 \<and> p_sessionId row = sid \<and> p_studentId row = Some stid"
    if lt: "?n < 3" and fresh: "newId \<notin> set (map p_id (promptSubmissionT db))"
      and st: "stid \<in> set (map st_id (studentT db))"
  proof -
    let ?row = "pendingSubmission newId now sid stid body (Some (rootOf parent)) ?n"
    have sess: "sid \<in> set (map s_id (sessionT db))" using x(2,3) by force
    have root: "rootOf parent \<in> set (map p_id (promptSubmissionT db))"
      by (rule root_exists[OF wf pin])
    have par: "pid \<in> set (map p_id (promptSubmissionT db))" using pin pidp by force
    have cr: "createPromptSubmission ?row db
                = Some (db\<lparr>promptSubmissionT := promptSubmissionT db @ [?row]\<rparr>)"
      using fresh sess st root par parent(1)
      by (simp add: createPromptSubmission_def pendingSubmission_def refersTo_def)
    have same: "map (\<lambda>s. if p_id s = newId then f s else s) (promptSubmissionT db)
                  = promptSubmissionT db" for f
      using fresh by (rule update_absent)
    show ?thesis
      using ck prompt x(1) lin lt cr parent(1) same
      by (cases "callOpenRouter (g_prompt body)
                   (Some (''data:'' @ orElse (p_imageMimeType parent) ''image/png'' @ '';base64,''
                      @ the (p_imageData parent)))")
         (auto simp: generate_POST_def truthy_def Let_def updatePromptSubmission_def
            pendingSubmission_def split: prod.splits)
  qed
  from A B show ?thesis by blast
qed

theorem refinement_limit_witness:
  "lineage_wf exDb
   \<and> length (filter live (chainOf ''sub0'' exDb)) = 2
   \<and> (\<exists>row. promptSubmissionT
                (snd (generate_POST exRemote ''sub2'' 50 (exStudentCk ''st1'')
                        \<lparr>g_prompt = ''a blue kite'', g_parentSubmissionId = Some ''sub1''\<rparr> exDb))
              = promptSubmissionT exDb @ [row]
            \<and> p_id row = ''sub2'' \<and> p_revisionIndex row = 2
            \<and> p_rootSubmissionId row = Some ''sub0'')
   \<and> lineage_wf exDb6
   \<and> length (filter live (chainOf ''sub0'' exDb6)) = 3
   \<and> generate_POST exRemote ''sub3'' 60 (exStudentCk ''st1'')
        \<lparr>g_prompt = ''a green kite'', g_parentSubmissionId = Some ''sub2''\<rparr> exDb6
       = (json 400 (Message ''This image has no refinements remaining.''), exDb6)"
proof -
  let ?ck = "exStudentCk ''st1''"
  let ?body = "\<lparr>g_prompt = ''a blue kite'', g_parentSubmissionId = Some ''sub1''\<rparr>"
  let ?parent = "exSubmission ''sub1'' 40 (Some ''sub0'') 1 False"
  have h1: "c_sessionId ?ck = Some ''sess1''" "''sess1'' \<noteq> []" "c_role ?ck = Some ''student''"
    "c_studentId ?ck = Some ''st1''" "''st1'' \<noteq> []"
    by (simp_all add: exStudentCk_def)
  have h2: "5 \<le> length (g_prompt ?body)" by simp
  have h3: "\<exists>s \<in> set (sessionT exDb). s_id s = ''sess1'' \<and> s_isActive s"
    by (simp add: exDb_def exSession_def)
  have h4: "g_parentSubmissionId ?body = Some ''sub1''" "''sub1'' \<noteq> []" by simp_all
  have h5: "findSubmission ''sub1'' exDb = Some ?parent" by code_simp
  have h6: "p_sessionId ?parent = ''sess1''" "p_studentId ?parent = Some ''st1''"
    "truthy (p_imageData ?parent)" by (simp_all add: exSubmission_def truthy_def)
  have h7: "lineage_wf exDb" by code_simp
  have r: "rootOf ?parent = ''sub0''" by code_simp
  have n: "length (filter live (chainOf ''sub0'' exDb)) = 2" by code_simp
  have f: "''sub2'' \<notin> set (map p_id (promptSubmissionT exDb))"
    "''st1'' \<in> set (map st_id (studentT exDb))"
    by (simp_all add: exDb_def exSubmission_def exStudent_def)
  have A: "\<exists>row. promptSubmissionT
                (snd (generate_POST exRemote ''sub2'' 50 (exStudentCk ''st1'') ?body exDb))
              = promptSubmissionT exDb @ [row]
            \<and> p_id row = ''sub2'' \<and> p_revisionIndex row = 2
            \<and> p_rootSubmissionId row = Some ''sub0''"
    using refinement_limit[OF h1 h2 h3 h4 h5 h6 h7, of exRemote "''sub2''" 50] r n f by auto
  let ?body' = "\<lparr>g_prompt = ''a green kite'', g_parentSubmissionId = Some ''sub2''\<rparr>"
  let ?parent' = "\<lparr>p_id = ''sub2'', p_sessionId = ''sess1'', p_prompt = ''a blue kite'',
        p_role = ''STUDENT'', p_createdAt = 50, p_studentId = Some ''st1'',
        p_rootSubmissionId = Some ''sub0'', p_parentSubmissionId = Some ''sub1'',
        p_revisionIndex = 2, p_status = SUCCESS, p_imageData = Some ''aW1n'',
        p_imageMimeType = Some ''image/png'', p_errorMessage = None, p_isShared = False\<rparr>"
  have k2: "5 \<le> length (g_prompt ?body')" by simp
  have k3: "\<exists>s \<in> set (sessionT exDb6). s_id s = ''sess1'' \<and> s_isActive s"
    by (simp add: exDb6_eq exDb_def exSession_def)
  have k4: "g_parentSubmissionId ?body' = Some ''sub2''" "''sub2'' \<noteq> []" by simp_all
  have k5: "findSubmission ''sub2'' exDb6 = Some ?parent'"
    by (simp add: findSubmission_def exDb6_eq exDb_def exSubmission_def)
  have k6: "p_sessionId ?parent' = ''sess1''" "p_studentId ?parent' = Some ''st1''"
    "truthy (p_imageData ?parent')" by (simp_all add: truthy_def)
  have k7: "lineage_wf exDb6" by (rule reachable_lineage_wf[OF exDb6_reachable])
  have r': "rootOf ?parent' = ''sub0''" by (simp add: rootOf_def orElse_def)
  have n': "length (filter live (chainOf ''sub0'' exDb6)) = 3" by code_simp
  have B: "generate_POST exRemote ''sub3'' 60 (exStudentCk ''st1'') ?body' exDb6
       = (json 400 (Message ''This image has no refinements remaining.''), exDb6)"
    using refinement_limit[OF h1 k2 k3 k4 k5 k6 k7, of exRemote "''sub3''" 60] r' n' by simp
  from h7 n A k7 n' B show ?thesis by blast
qed





text \<open>
  C3. The claim: every submission of the gallery list carries
  \<open>remainingEdits = max 0 (3 - n)\<close> with \<open>n\<close> the number of SUCCESS submissions of its
  chain, for every caller. The list route counts only among the rows it returns to the
  caller (\<open>list_remaining_visible\<close>). That is the chain's count for a teacher and for a
  student's own submissions (\<open>list_remaining_whole_chain\<close>), but not for a student
  who is shown a classmate's shared image whose chain has an unshared SUCCESS
  refinement. In the example store, which is reachable, the second student is shown
  the first student's shared original with 2 remaining edits, while its chain has two
  SUCCESS members, so that the claim (and \<^verbatim>\<open>getSubmissionWithRemainingEdits\<close>, which
  counts over the store) gives 1; the teacher's list gives 1.
\<close>

theorem list_remaining_edits_undercounts:
  "reachable exDb
   \<and> map (\<lambda>e. (p_id (e_submission e), e_remainingEdits e))
       (enrichedOf (fst (listSubmissions_GET (exStudentCk ''st2'') exDb))) = [(''sub0'', 2)]
   \<and> map p_id (filter (\<lambda>s. p_status s = SUCCESS) (chainOf ''sub0'' exDb)) = [''sub0'', ''sub1'']
   \<and> map_option snd (getSubmissionWithRemainingEdits ''sub0'' exDb) = Some 1
   \<and> map (\<lambda>e. (p_id (e_submission e), e_remainingEdits e))
       (enrichedOf (fst (listSubmissions_GET exTeacher exDb))) = [(''sub1'', 1), (''sub0'', 1)]"
proof -
  have a: "map (\<lambda>e. (p_id (e_submission e), e_remainingEdits e))
       (enrichedOf (fst (listSubmissions_GET (exStudentCk ''st2'') exDb))) = [(''sub0'', 2)]"
    by code_simp
  have b: "map p_id (filter (\<lambda>s. p_status s = SUCCESS) (chainOf ''sub0'' exDb)) = [''sub0'', ''sub1'']"
    by code_simp
  have c: "map_option snd (getSubmissionWithRemainingEdits ''sub0'' exDb) = Some 1"
    by code_simp
  have d: "map (\<lambda>e. (p_id (e_submission e), e_remainingEdits e))
       (enrichedOf (fst (listSubmissions_GET exTeacher exDb))) = [(''sub1'', 1), (''sub0'', 1)]"
    by code_simp
  from exDb_reachable a b c d show ?thesis by blast
qed

text \<open>
  C4. A generate request of an authenticated student in an active session, with a valid
  prompt and a non-empty \<^verbatim>\<open>parentSubmissionId\<close>, fails without creating a row:
  with status 404 when no submission of that id exists in the caller's session, with
  status 403 when the parent is of the session but not owned by the caller, and with
  status 422 when the parent is owned but has no image data. In each case the store is
  left as it was.
\<close>

theorem refinement_parent_errors:
  assumes ck: "c_sessionId ck = Some sid" "sid \<noteq> []" "c_role ck = Some ''student''"
              "c_studentId ck = Some stid" "stid \<noteq> []"
    and prompt: "5 \<le> length (g_prompt body)"
    and active: "\<exists>s \<in> set (sessionT db). s_id s = sid \<and> s_isActive s"
    and parent: "g_parentSubmissionId body = Some pid" "pid \<noteq> []"
  shows "((\<forall>s \<in> set (promptSubmissionT db). p_id s = pid \<longrightarrow> p_sessionId s \<noteq> sid) \<longrightarrow>
            generate_POST callOpenRouter newId now ck body db =
              (json 404 (Message ''Original image not found for this session.''), db))
       \<and> (\<forall>p. findSubmission pid db = Some p \<and> p_sessionId p = sid \<and>
                p_studentId p \<noteq> Some stid \<longrightarrow>
            generate_POST callOpenRouter newId now ck body db =
              (json 403 (Message ''You can only refine images you created.''), db))
       \<and> (\<forall>p. findSubmission pid db = Some p \<and> p_sessionId p = sid \<and>
                p_studentId p = Some stid \<and> \<not> truthy (p_imageData p) \<longrightarrow>
            generate_POST callOpenRouter newId now ck body db =
              (json 422 (Message ''Original image data is unavailable for refinement.''), db))"
proof -
  from find_active_Some[OF active] obtain x where
    x: "find (\<lambda>s. s_id s = sid \<and> s_isActive s) (sessionT db) = Some x" by blast
  have gen: "generate_POST callOpenRouter newId now ck body db = (r, db)"
    if "resolveParent sid stid pid db = Inl r" for r
    using ck prompt x parent that
    by (simp add: generate_POST_def truthy_def Let_def lineage_def)
  have A: "resolveParent sid stid pid db
             = Inl (json 404 (Message ''Original image not found for this session.''))"
    if "\<forall>s \<in> set (promptSubmissionT db). p_id s = pid \<longrightarrow> p_sessionId s \<noteq> sid"
    using findSubmission_None_or_other[OF that] by (auto simp: resolveParent_def)
  have B: "resolveParent sid stid pid db
             = Inl (json 403 (Message ''You can only refine images you created.''))"
    if "findSubmission pid db = Some p" "p_sessionId p = sid" "p_studentId p \<noteq> Some stid" for p
    using that by (simp add: resolveParent_def)
  have C: "resolveParent sid stid pid db
             = Inl (json 422 (Message ''Original image data is unavailable for refinement.''))"
    if "findSubmission pid db = Some p" "p_sessionId p = sid" "p_studentId p = Some stid"
       "\<not> truthy (p_imageData p)" for p
    using that by (simp add: resolveParent_def)
  show ?thesis using gen A B C by blast
qed

theorem refinement_parent_errors_witness:
  "generate_POST exRemote ''sub3'' 60 (exStudentCk ''st1'')
      \<lparr>g_prompt = ''a green kite'', g_parentSubmissionId = Some ''nope''\<rparr> exDb5
     = (json 404 (Message ''Original image not found for this session.''), exDb5)
   \<and> generate_POST exRemote ''sub3'' 60 (exStudentCk ''st2'')
      \<lparr>g_prompt = ''a green kite'', g_parentSubmissionId = Some ''sub0''\<rparr> exDb5
     = (json 403 (Message ''You can only refine images you created.''), exDb5)
   \<and> generate_POST exRemote ''sub3'' 60 (exStudentCk ''st1'')
      \<lparr>g_prompt = ''a green kite'', g_parentSubmissionId = Some ''sub2''\<rparr> exDb5
     = (json 422 (Message ''Original image data is unavailable for refinement.''), exDb5)"
proof -
  have act: "\<exists>s \<in> set (sessionT exDb5). s_id s = ''sess1'' \<and> s_isActive s"
    by (simp add: exDb5_eq exDb_def exSession_def)
  have ck: "c_sessionId (exStudentCk i) = Some ''sess1''" "''sess1'' \<noteq> []"
    "c_role (exStudentCk i) = Some ''student''" "c_studentId (exStudentCk i) = Some i" for i
    by (simp_all add: exStudentCk_def)
  have a: "\<forall>s \<in> set (promptSubmissionT exDb5). p_id s = ''nope'' \<longrightarrow> p_sessionId s \<noteq> ''sess1''"
    by (simp add: exDb5_eq exDb_def exSubmission_def)
  have b: "findSubmission ''sub0'' exDb5 = Some (exSubmission ''sub0'' 30 None 0 True)
      \<and> p_sessionId (exSubmission ''sub0'' 30 None 0 True) = ''sess1''
      \<and> p_studentId (exSubmission ''sub0'' 30 None 0 True) \<noteq> Some ''st2''"
    by (simp add: findSubmission_def exDb5_eq exDb_def exSubmission_def)
  have c: "\<exists>p. findSubmission ''sub2'' exDb5 = Some p \<and> p_sessionId p = ''sess1''
      \<and> p_studentId p = Some ''st1'' \<and> \<not> truthy (p_imageData p)"
    by (simp add: findSubmission_def exDb5_eq exDb_def exSubmission_def truthy_def)
  note inst = refinement_parent_errors[where sid = "''sess1''" and db = exDb5
      and callOpenRouter = exRemote and newId = "''sub3''" and now = 60]
  show ?thesis
    using
      inst[where ck = "exStudentCk ''st1''" and stid = "''st1''" and pid = "''nope''"
        and body = "\<lparr>g_prompt = ''a green kite'', g_parentSubmissionId = Some ''nope''\<rparr>"]
      inst[where ck = "exStudentCk ''st2''" and stid = "''st2''" and pid = "''sub0''"
        and body = "\<lparr>g_prompt = ''a green kite'', g_parentSubmissionId = Some ''sub0''\<rparr>"]
      inst[where ck = "exStudentCk ''st1''" and stid = "''st1''" and pid = "''sub2''"
        and body = "\<lparr>g_prompt = ''a green kite'', g_parentSubmissionId = Some ''sub2''\<rparr>"]
      a b c act ck
    by auto
qed

text \<open>
  C4 as the specification words it, for every supplied \<^verbatim>\<open>parentSubmissionId\<close> and with
  the validation failure of the taxonomy (status 400), fails twice on the store left by
  a failed generation. The empty string names no submission, yet the request is not
  refused with status 404: the route's test \<^verbatim>\<open>if (parentSubmissionId)\<close> skips the parent
  checks, the insert is given the empty string as its parent reference and throws, and
  the answer is status 500. And the caller's own submission \<^verbatim>\<open>sub2\<close>, which has no
  image, is refused with status 422, not 400.
\<close>

theorem refinement_parent_empty_id_and_422:
  "reachable exDb5
   \<and> findSubmission [] exDb5 = None
   \<and> generate_POST exRemote ''sub3'' 60 (exStudentCk ''st1'')
        \<lparr>g_prompt = ''a green kite'', g_parentSubmissionId = Some []\<rparr> exDb5
       = (json 500 (Message ''Unable to generate image''), exDb5)
   \<and> status (fst (generate_POST exRemote ''sub3'' 60 (exStudentCk ''st1'')
        \<lparr>g_prompt = ''a green kite'', g_parentSubmissionId = Some ''sub2''\<rparr> exDb5)) = 422"
proof -
  have a: "findSubmission [] exDb5 = None"
    by (simp add: findSubmission_def exDb5_eq exDb_def exSubmission_def)
  have b: "generate_POST exRemote ''sub3'' 60 (exStudentCk ''st1'')
        \<lparr>g_prompt = ''a green kite'', g_parentSubmissionId = Some []\<rparr> exDb5
       = (json 500 (Message ''Unable to generate image''), exDb5)"
    by code_simp
  have c: "status (fst (generate_POST exRemote ''sub3'' 60 (exStudentCk ''st1'')
        \<lparr>g_prompt = ''a green kite'', g_parentSubmissionId = Some ''sub2''\<rparr> exDb5)) = 422"
    by code_simp
  show ?thesis using exDb5_reachable a b c by simp
qed

text \<open>
  C5. When the remote chat call throws after the student's message has been persisted,
  the route answers with an error (status 500 and the thrown message) and the store is
  the old one with exactly the student's message appended: that message is kept, no AI
  message is added, and nothing is rolled back.
\<close>

theorem chat_failure_keeps_student_message:
  assumes ck: "c_sessionId ck = Some sid" "sid \<noteq> []" "c_role ck = Some ''student''"
              "c_studentId ck = Some stid" "stid \<noteq> []"
    and thread: "find (\<lambda>t. t_id t = threadId) (chatThreadT db) = Some thread"
                "t_sessionId thread = sid" "t_studentId thread = stid"
    and content: "1 \<le> length (trim bodyContent)" "length (trim bodyContent) \<le> 4000"
    and msg: "studentMessage =
                \<lparr>m_id = newIds 0, m_content = trim bodyContent, m_sender = STUDENT,
                 m_createdAt = now, m_threadId = threadId, m_studentId = Some stid\<rparr>"
    and persisted: "createChatMessage studentMessage db = Some db1"
    and fails: "callChatCompletion
                  (map (\<lambda>m. (m_sender m, m_content m)) (orderedHistory threadId db1)) = Inl e"
  shows "postMessage_POST callChatCompletion dbError newIds now later threadId ck bodyContent db
           = (json 500 (Message (thrownMessage e ''Unable to send message'')),
              db\<lparr>chatMessageT := chatMessageT db @ [studentMessage]\<rparr>)
       \<and> filter (\<lambda>m. m_sender m = AI)
            (chatMessageT (snd (postMessage_POST callChatCompletion dbError newIds now later
                                  threadId ck bodyContent db)))
           = filter (\<lambda>m. m_sender m = AI) (chatMessageT db)"
proof -
  have db1: "db1 = db\<lparr>chatMessageT := chatMessageT db @ [studentMessage]\<rparr>"
    using createChatMessage_Some[OF persisted] .
  have ne: "trim bodyContent \<noteq> []" using content(1) by auto
  have "postMessage_POST callChatCompletion dbError newIds now later threadId ck bodyContent db
           = (json 500 (Message (thrownMessage e ''Unable to send message'')), db1)"
    using ck thread ne content(2) persisted fails unfolding msg
    by (simp add: postMessage_POST_def truthy_def Let_def)
  then show ?thesis by (simp add: db1 msg)
qed

theorem chat_failure_keeps_student_message_witness:
  "postMessage_POST exChatFail ''db error'' exMsgIds 100 110 ''thread1'' (exStudentCk ''st1'')
      ''  What is a kite?  '' (exDbT 4)
   = (json 500 (Message ''Provider returned error''),
      (exDbT 4)\<lparr>chatMessageT :=
         [\<lparr>m_id = ''msg1'', m_content = ''What is a kite?'', m_sender = STUDENT,
           m_createdAt = 100, m_threadId = ''thread1'', m_studentId = Some ''st1''\<rparr>]\<rparr>)"
proof -
  let ?m = "\<lparr>m_id = exMsgIds 0, m_content = trim ''  What is a kite?  '', m_sender = STUDENT,
             m_createdAt = 100, m_threadId = ''thread1'', m_studentId = Some ''st1''\<rparr>"
  have ck: "c_sessionId (exStudentCk ''st1'') = Some ''sess1''" "''sess1'' \<noteq> []"
    "c_role (exStudentCk ''st1'') = Some ''student''"
    "c_studentId (exStudentCk ''st1'') = Some ''st1''" "''st1'' \<noteq> []"
    by (simp_all add: exStudentCk_def)
  have th: "find (\<lambda>t. t_id t = ''thread1'') (chatThreadT (exDbT 4))
              = Some (newThread ''thread1'' 80 ''sess1'' ''st1'' ''Conversation 1'')"
    "t_sessionId (newThread ''thread1'' 80 ''sess1'' ''st1'' ''Conversation 1'') = ''sess1''"
    "t_studentId (newThread ''thread1'' 80 ''sess1'' ''st1'' ''Conversation 1'') = ''st1''"
    by (simp_all add: exDbT_threads newThread_def)
  have tr: "trim ''  What is a kite?  '' = ''What is a kite?''" by code_simp
  have len: "1 \<le> length (trim ''  What is a kite?  '')"
    "length (trim ''  What is a kite?  '') \<le> 4000"
    by (simp_all add: tr)
  have nomsg: "chatMessageT (exDbT 4) = []" by code_simp
  have cr: "createChatMessage ?m (exDbT 4) = Some ((exDbT 4)\<lparr>chatMessageT := chatMessageT (exDbT 4) @ [?m]\<rparr>)"
    by (simp add: createChatMessage_def nomsg exDbT_threads newThread_def refersTo_def
        exDbT_frame exDb5_eq exDb_def exStudent_def)
  have fl: "exChatFail (map (\<lambda>m. (m_sender m, m_content m))
              (orderedHistory ''thread1'' ((exDbT 4)\<lparr>chatMessageT := chatMessageT (exDbT 4) @ [?m]\<rparr>)))
            = Inl (ErrorObj ''Provider returned error'')"
    by (simp add: exChatFail_def)
  from chat_failure_keeps_student_message[where callChatCompletion = exChatFail
      and dbError = "''db error''" and later = 110 and newIds = exMsgIds and now = 100
      and bodyContent = "''  What is a kite?  ''" and threadId = "''thread1''" and db = "exDbT 4",
      OF ck th len refl cr fl]
  show ?thesis by (simp add: tr nomsg exMsgIds_def thrownMessage_def)
qed

text \<open>
  C6. Sharing succeeds (status 200) only for a caller with the student role whose
  target submission is of the caller's session, owned by the caller and of status
  SUCCESS, and then sets the flag. For a student caller and a well-formed id, a
  submission that another student (or nobody) owns is refused with status 403, and an
  owned submission that is not SUCCESS with status 400. Every response other than 200
  leaves the store, and so every \<open>isShared\<close> flag, unchanged.
\<close>

theorem share_only_own_success:
  "(status (fst (setShared_POST isCuid ck body db)) = 200 \<longrightarrow>
      truthy (c_sessionId ck) \<and> c_role ck = Some ''student'' \<and> truthy (c_studentId ck) \<and>
      (\<exists>s. findSubmission (sh_submissionId body) db = Some s \<and>
           Some (p_sessionId s) = c_sessionId ck \<and> p_studentId s = c_studentId ck \<and>
           p_status s = SUCCESS))
   \<and> (truthy (c_sessionId ck) \<and> c_role ck = Some ''student'' \<and> truthy (c_studentId ck) \<and>
      isCuid (sh_submissionId body) \<longrightarrow>
        (\<forall>s. findSubmission (sh_submissionId body) db = Some s \<and>
              p_studentId s \<noteq> c_studentId ck \<longrightarrow>
           setShared_POST isCuid ck body db =
             (json 403 (Message ''You can only manage sharing for your own images.''), db))
      \<and> (\<forall>s. findSubmission (sh_submissionId body) db = Some s \<and>
              Some (p_sessionId s) = c_sessionId ck \<and> p_studentId s = c_studentId ck \<and>
              p_status s \<noteq> SUCCESS \<longrightarrow>
           setShared_POST isCuid ck body db =
             (json 400 (Message ''Only completed images can be shared.''), db))
      \<and> (\<forall>s. findSubmission (sh_submissionId body) db = Some s \<and>
              Some (p_sessionId s) = c_sessionId ck \<and> p_studentId s = c_studentId ck \<and>
              p_status s = SUCCESS \<longrightarrow>
           setShared_POST isCuid ck body db =
             (json 200 (ShareState (sh_submissionId body) (sh_share body)),
              updatePromptSubmission (sh_submissionId body)
                (\<lambda>s. s\<lparr>p_isShared := sh_share body\<rparr>) db)))
   \<and> (status (fst (setShared_POST isCuid ck body db)) \<noteq> 200 \<longrightarrow>
        snd (setShared_POST isCuid ck body db) = db)"
proof (intro conjI impI allI)
  assume "status (fst (setShared_POST isCuid ck body db)) = 200"
  then show "truthy (c_sessionId ck)" "c_role ck = Some ''student''" "truthy (c_studentId ck)"
    "\<exists>s. findSubmission (sh_submissionId body) db = Some s \<and>
           Some (p_sessionId s) = c_sessionId ck \<and> p_studentId s = c_studentId ck \<and>
           p_status s = SUCCESS"
    by (auto simp: setShared_POST_def json_def split: if_splits option.splits)
next
  fix s
  assume "truthy (c_sessionId ck) \<and> c_role ck = Some ''student'' \<and> truthy (c_studentId ck) \<and>
      isCuid (sh_submissionId body)"
    "findSubmission (sh_submissionId body) db = Some s \<and> p_studentId s \<noteq> c_studentId ck"
  then show "setShared_POST isCuid ck body db =
             (json 403 (Message ''You can only manage sharing for your own images.''), db)"
    by (simp add: setShared_POST_def)
next
  fix s
  assume "truthy (c_sessionId ck) \<and> c_role ck = Some ''student'' \<and> truthy (c_studentId ck) \<and>
      isCuid (sh_submissionId body)"
    "findSubmission (sh_submissionId body) db = Some s \<and>
              Some (p_sessionId s) = c_sessionId ck \<and> p_studentId s = c_studentId ck \<and>
              p_status s \<noteq> SUCCESS"
  then show "setShared_POST isCuid ck body db =
             (json 400 (Message ''Only completed images can be shared.''), db)"
    by (simp add: setShared_POST_def)
next
  fix s
  assume a: "truthy (c_sessionId ck) \<and> c_role ck = Some ''student'' \<and> truthy (c_studentId ck) \<and>
      isCuid (sh_submissionId body)"
    and b: "findSubmission (sh_submissionId body) db = Some s \<and>
              Some (p_sessionId s) = c_sessionId ck \<and> p_studentId s = c_studentId ck \<and>
              p_status s = SUCCESS"
  from b have "p_id s = sh_submissionId body" using findSubmission_Some by blast
  with a b show "setShared_POST isCuid ck body db =
             (json 200 (ShareState (sh_submissionId body) (sh_share body)),
              updatePromptSubmission (sh_submissionId body)
                (\<lambda>s. s\<lparr>p_isShared := sh_share body\<rparr>) db)"
    by (simp add: setShared_POST_def)
next
  assume "status (fst (setShared_POST isCuid ck body db)) \<noteq> 200"
  then show "snd (setShared_POST isCuid ck body db) = db"
    by (auto simp: setShared_POST_def json_def split: if_splits option.splits)
qed


theorem share_only_own_success_witness:
  "setShared_POST (\<lambda>i. True) (exStudentCk ''st2'') \<lparr>sh_submissionId = ''sub0'', sh_share = False\<rparr> exDb5
     = (json 403 (Message ''You can only manage sharing for your own images.''), exDb5)
   \<and> setShared_POST (\<lambda>i. True) (exStudentCk ''st1'') \<lparr>sh_submissionId = ''sub2'', sh_share = True\<rparr> exDb5
     = (json 400 (Message ''Only completed images can be shared.''), exDb5)
   \<and> fst (setShared_POST (\<lambda>i. True) (exStudentCk ''st1'') \<lparr>sh_submissionId = ''sub1'', sh_share = True\<rparr> exDb5)
     = json 200 (ShareState ''sub1'' True)"
proof -
  have ck: "truthy (c_sessionId (exStudentCk i))" "c_role (exStudentCk i) = Some ''student''"
    "c_studentId (exStudentCk i) = Some i" "c_sessionId (exStudentCk i) = Some ''sess1''" for i
    by (simp_all add: exStudentCk_def truthy_def)
  have t: "truthy (Some ''st1'')" "truthy (Some ''st2'')" by (simp_all add: truthy_def)
  have f0: "\<exists>s. findSubmission ''sub0'' exDb5 = Some s \<and> p_studentId s \<noteq> Some ''st2''"
    by (simp add: findSubmission_def exDb5_eq exDb_def exSubmission_def)
  have f2: "\<exists>s. findSubmission ''sub2'' exDb5 = Some s \<and> p_sessionId s = ''sess1''
      \<and> p_studentId s = Some ''st1'' \<and> p_status s \<noteq> SUCCESS"
    by (simp add: findSubmission_def exDb5_eq exDb_def exSubmission_def)
  have f1: "\<exists>s. findSubmission ''sub1'' exDb5 = Some s \<and> p_sessionId s = ''sess1''
      \<and> p_studentId s = Some ''st1'' \<and> p_status s = SUCCESS"
    by (simp add: findSubmission_def exDb5_eq exDb_def exSubmission_def)
  note inst = share_only_own_success[where isCuid = "\<lambda>i. True" and db = exDb5]
  have A: "setShared_POST (\<lambda>i. True) (exStudentCk ''st2'') \<lparr>sh_submissionId = ''sub0'', sh_share = False\<rparr> exDb5
     = (json 403 (Message ''You can only manage sharing for your own images.''), exDb5)"
    using inst[where ck = "exStudentCk ''st2''" and body = "\<lparr>sh_submissionId = ''sub0'', sh_share = False\<rparr>",
        THEN conjunct2, THEN conjunct1]
      f0 ck t by simp
  have B: "setShared_POST (\<lambda>i. True) (exStudentCk ''st1'') \<lparr>sh_submissionId = ''sub2'', sh_share = True\<rparr> exDb5
     = (json 400 (Message ''Only completed images can be shared.''), exDb5)"
    using inst[where ck = "exStudentCk ''st1''" and body = "\<lparr>sh_submissionId = ''sub2'', sh_share = True\<rparr>",
        THEN conjunct2, THEN conjunct1]
      f2 ck t by simp
  have C: "fst (setShared_POST (\<lambda>i. True) (exStudentCk ''st1'') \<lparr>sh_submissionId = ''sub1'', sh_share = True\<rparr> exDb5)
     = json 200 (ShareState ''sub1'' True)"
    using inst[where ck = "exStudentCk ''st1''" and body = "\<lparr>sh_submissionId = ''sub1'', sh_share = True\<rparr>",
        THEN conjunct2, THEN conjunct1]
      f1 ck t by simp
  from A B C show ?thesis by blast
qed

text \<open>
  C7. Creating a thread requires the student role (otherwise status 403 and nothing is
  created). For a student caller with a valid title: with five or more threads of the
  (session, student) pair the request is refused with status 400 and nothing is
  created; with fewer than five, and when the database accepts the insert (a fresh id,
  existing session and student rows), the thread is appended. Without a title (or with
  one that is empty after trimming) the title is "Conversation n" with n the prior
  thread count plus one. So the fifth create succeeds and the sixth fails.
\<close>

theorem thread_limit:
  "((\<not> truthy (c_sessionId ck) \<or> c_role ck \<noteq> Some ''student'' \<or> \<not> truthy (c_studentId ck)) \<longrightarrow>
      createThread_POST newId now ck bodyTitle db =
        (json 403 (Message ''Student access required.''), db))
   \<and> (c_sessionId ck = Some sid \<and> sid \<noteq> [] \<and> c_role ck = Some ''student'' \<and>
      c_studentId ck = Some stid \<and> stid \<noteq> [] \<and>
      (\<forall>t. bodyTitle = Some t \<longrightarrow> length (trim t) \<le> 80) \<longrightarrow>
        (5 \<le> threadCountOf sid stid db \<longrightarrow>
           createThread_POST newId now ck bodyTitle db =
             (json 400 (Message ''You have reached the chat limit for this session.''), db))
      \<and> (threadCountOf sid stid db < 5 \<and> newId \<notin> set (map t_id (chatThreadT db)) \<and>
         sid \<in> set (map s_id (sessionT db)) \<and> stid \<in> set (map st_id (studentT db)) \<longrightarrow>
           (\<exists>title.
              createThread_POST newId now ck bodyTitle db =
                (json 200 (ThreadJson (newThread newId now sid stid title)),
                 db\<lparr>chatThreadT := chatThreadT db @ [newThread newId now sid stid title]\<rparr>)
              \<and> (bodyTitle = None \<longrightarrow>
                   title = ''Conversation '' @ natToString (threadCountOf sid stid db + 1))
              \<and> (\<forall>t. bodyTitle = Some t \<longrightarrow>
                   title = (if trim t = [] then
                              ''Conversation '' @ natToString (threadCountOf sid stid db + 1)
                            else trim t)))))"
proof (intro conjI impI)
  assume "\<not> truthy (c_sessionId ck) \<or> c_role ck \<noteq> Some ''student'' \<or> \<not> truthy (c_studentId ck)"
  then show "createThread_POST newId now ck bodyTitle db =
        (json 403 (Message ''Student access required.''), db)"
    by (auto simp: createThread_POST_def)
next
  assume g: "c_sessionId ck = Some sid \<and> sid \<noteq> [] \<and> c_role ck = Some ''student'' \<and>
      c_studentId ck = Some stid \<and> stid \<noteq> [] \<and>
      (\<forall>t. bodyTitle = Some t \<longrightarrow> length (trim t) \<le> 80)"
    and "5 \<le> threadCountOf sid stid db"
  then show "createThread_POST newId now ck bodyTitle db =
             (json 400 (Message ''You have reached the chat limit for this session.''), db)"
    by (cases bodyTitle)
       (auto simp: createThread_POST_def truthy_def Let_def MAX_THREADS_PER_STUDENT_def)
next
  assume g: "c_sessionId ck = Some sid \<and> sid \<noteq> [] \<and> c_role ck = Some ''student'' \<and>
      c_studentId ck = Some stid \<and> stid \<noteq> [] \<and>
      (\<forall>t. bodyTitle = Some t \<longrightarrow> length (trim t) \<le> 80)"
    and h: "threadCountOf sid stid db < 5 \<and> newId \<notin> set (map t_id (chatThreadT db)) \<and>
         sid \<in> set (map s_id (sessionT db)) \<and> stid \<in> set (map st_id (studentT db))"
  let ?dflt = "''Conversation '' @ natToString (threadCountOf sid stid db + 1)"
  let ?title = "case bodyTitle of None \<Rightarrow> ?dflt | Some t \<Rightarrow> if trim t = [] then ?dflt else trim t"
  have "createThread_POST newId now ck bodyTitle db =
                (json 200 (ThreadJson (newThread newId now sid stid ?title)),
                 db\<lparr>chatThreadT := chatThreadT db @ [newThread newId now sid stid ?title]\<rparr>)"
    using g h
    by (cases bodyTitle)
       (auto simp: createThread_POST_def truthy_def Let_def MAX_THREADS_PER_STUDENT_def
          createChatThread_def newThread_def)
  then show "\<exists>title.
              createThread_POST newId now ck bodyTitle db =
                (json 200 (ThreadJson (newThread newId now sid stid title)),
                 db\<lparr>chatThreadT := chatThreadT db @ [newThread newId now sid stid title]\<rparr>)
              \<and> (bodyTitle = None \<longrightarrow>
                   title = ''Conversation '' @ natToString (threadCountOf sid stid db + 1))
              \<and> (\<forall>t. bodyTitle = Some t \<longrightarrow>
                   title = (if trim t = [] then
                              ''Conversation '' @ natToString (threadCountOf sid stid db + 1)
                            else trim t))"
    by (intro exI[of _ ?title]) auto
qed

theorem thread_limit_witness:
  "threadCountOf ''sess1'' ''st1'' (exDbT 4) = 4
   \<and> createThread_POST ''thread5'' 90 (exStudentCk ''st1'') None (exDbT 4) =
       (json 200 (ThreadJson (newThread ''thread5'' 90 ''sess1'' ''st1'' ''Conversation 5'')),
        (exDbT 4)\<lparr>chatThreadT := chatThreadT (exDbT 4) @
           [newThread ''thread5'' 90 ''sess1'' ''st1'' ''Conversation 5'']\<rparr>)
   \<and> threadCountOf ''sess1'' ''st1'' (exDbT 5) = 5
   \<and> createThread_POST ''thread6'' 95 (exStudentCk ''st1'') None (exDbT 5) =
       (json 400 (Message ''You have reached the chat limit for this session.''), exDbT 5)
   \<and> createThread_POST ''thread6'' 95 exTeacher None (exDbT 5) =
       (json 403 (Message ''Student access required.''), exDbT 5)"
proof -
  have ck: "c_sessionId (exStudentCk ''st1'') = Some ''sess1''"
    "c_role (exStudentCk ''st1'') = Some ''student''"
    "c_studentId (exStudentCk ''st1'') = Some ''st1''"
    by (simp_all add: exStudentCk_def)
  have n4: "threadCountOf ''sess1'' ''st1'' (exDbT 4) = 4"
    by (simp add: threadCountOf_def exDbT_threads newThread_def)
  have n5: "threadCountOf ''sess1'' ''st1'' (exDbT 5) = 5" by code_simp
  have fresh: "''thread5'' \<notin> set (map t_id (chatThreadT (exDbT 4)))"
    by (simp add: exDbT_threads newThread_def)
  have fk: "''sess1'' \<in> set (map s_id (sessionT (exDbT 4)))"
    "''st1'' \<in> set (map st_id (studentT (exDbT 4)))"
    by (simp_all add: exDbT_frame exDb5_eq exDb_def exSession_def exStudent_def)
  have five: "natToString (4 + 1) = ''5''" by code_simp
  have A: "createThread_POST ''thread5'' 90 (exStudentCk ''st1'') None (exDbT 4) =
       (json 200 (ThreadJson (newThread ''thread5'' 90 ''sess1'' ''st1'' ''Conversation 5'')),
        (exDbT 4)\<lparr>chatThreadT := chatThreadT (exDbT 4) @
           [newThread ''thread5'' 90 ''sess1'' ''st1'' ''Conversation 5'']\<rparr>)"
    using thread_limit[where ck = "exStudentCk ''st1''" and sid = "''sess1''" and stid = "''st1''"
        and bodyTitle = None and db = "exDbT 4" and newId = "''thread5''" and now = 90,
        THEN conjunct2]
      ck n4 fresh fk five by auto
  have B: "createThread_POST ''thread6'' 95 (exStudentCk ''st1'') None (exDbT 5) =
       (json 400 (Message ''You have reached the chat limit for this session.''), exDbT 5)"
    using thread_limit[where ck = "exStudentCk ''st1''" and sid = "''sess1''" and stid = "''st1''"
        and bodyTitle = None and db = "exDbT 5" and newId = "''thread6''" and now = 95,
        THEN conjunct2]
      ck n5 by simp
  have C: "createThread_POST ''thread6'' 95 exTeacher None (exDbT 5) =
       (json 403 (Message ''Student access required.''), exDbT 5)"
    using thread_limit[where ck = exTeacher and bodyTitle = None and db = "exDbT 5"
        and newId = "''thread6''" and now = 95, THEN conjunct1]
    by (simp add: exTeacher_def)
  from n4 A n5 B C show ?thesis by blast
qed

text \<open>
  C8. When the remote generation call throws after the submission row has been
  created, the route answers with status 502 and the thrown error's message, and the
  store is the old one with the new row appended, its status ERROR and its error
  message the thrown one: no row is deleted. For a provider failure the thrown error
  is an \<^verbatim>\<open>Error\<close> object that carries the provider's message, and that message is the
  one recorded.
\<close>

theorem generation_failure_recorded:
  assumes ck: "c_sessionId ck = Some sid" "sid \<noteq> []" "c_role ck = Some ''student''"
              "c_studentId ck = Some stid" "stid \<noteq> []"
    and prompt: "5 \<le> length (g_prompt body)"
    and active: "\<exists>s \<in> set (sessionT db). s_id s = sid \<and> s_isActive s"
    and lin: "lineage sid stid (g_parentSubmissionId body) db = Inr (rootOpt, n, url)"
    and created: "createPromptSubmission
                    (pendingSubmission newId now sid stid body rootOpt n) db = Some db1"
    and fails: "callOpenRouter (g_prompt body) url = Inl e"
  shows "generate_POST callOpenRouter newId now ck body db =
           (json 502 (Message (thrownMessage e ''Image generation failed'')),
            db\<lparr>promptSubmissionT := promptSubmissionT db @
                 [(pendingSubmission newId now sid stid body rootOpt n)
                    \<lparr>p_status := ERROR,
                     p_errorMessage := Some (thrownMessage e ''Image generation failed'')\<rparr>]\<rparr>)
         \<and> thrownMessage (ErrorObj m) ''Image generation failed'' = m"
proof -
  from find_active_Some[OF active] obtain x where
    x: "find (\<lambda>s. s_id s = sid \<and> s_isActive s) (sessionT db) = Some x" by blast
  from createPromptSubmission_Some[OF created] have
    db1: "db1 = db\<lparr>promptSubmissionT := promptSubmissionT db @
                  [pendingSubmission newId now sid stid body rootOpt n]\<rparr>"
    and fresh: "newId \<notin> set (map p_id (promptSubmissionT db))"
    by (simp_all add: pendingSubmission_def)
  have "generate_POST callOpenRouter newId now ck body db =
          (json 502 (Message (thrownMessage e ''Image generation failed'')),
           updatePromptSubmission newId
             (\<lambda>s. s\<lparr>p_status := ERROR,
                     p_errorMessage := Some (thrownMessage e ''Image generation failed'')\<rparr>) db1)"
    using ck prompt x lin created fails
    by (simp add: generate_POST_def truthy_def Let_def)
  moreover have "updatePromptSubmission newId f db1 =
      db\<lparr>promptSubmissionT := promptSubmissionT db @
            [f (pendingSubmission newId now sid stid body rootOpt n)]\<rparr>" for f
    using update_absent[OF fresh, of f]
    by (simp add: updatePromptSubmission_def db1 pendingSubmission_def)
  ultimately show ?thesis by (simp add: thrownMessage_def)
qed

theorem generation_failure_recorded_witness:
  "generate_POST exFail ''sub2'' 50 (exStudentCk ''st1'')
      \<lparr>g_prompt = ''a blue kite'', g_parentSubmissionId = Some ''sub1''\<rparr> exDb
   = (json 502 (Message ''Rate limit exceeded''),
      exDb\<lparr>promptSubmissionT := promptSubmissionT exDb @
        [\<lparr>p_id = ''sub2'', p_sessionId = ''sess1'', p_prompt = ''a blue kite'', p_role = ''STUDENT'',
          p_createdAt = 50, p_studentId = Some ''st1'', p_rootSubmissionId = Some ''sub0'',
          p_parentSubmissionId = Some ''sub1'', p_revisionIndex = 2, p_status = ERROR,
          p_imageData = None, p_imageMimeType = None,
          p_errorMessage = Some ''Rate limit exceeded'', p_isShared = False\<rparr>]\<rparr>)"
proof -
  let ?body = "\<lparr>g_prompt = ''a blue kite'', g_parentSubmissionId = Some ''sub1''\<rparr>"
  let ?url = "Some ''data:image/png;base64,aW1n''"
  have ck: "c_sessionId (exStudentCk ''st1'') = Some ''sess1''" "''sess1'' \<noteq> []"
    "c_role (exStudentCk ''st1'') = Some ''student''"
    "c_studentId (exStudentCk ''st1'') = Some ''st1''" "''st1'' \<noteq> []"
    by (simp_all add: exStudentCk_def)
  have pr: "5 \<le> length (g_prompt ?body)" by simp
  have act: "\<exists>s \<in> set (sessionT exDb). s_id s = ''sess1'' \<and> s_isActive s"
    by (simp add: exDb_def exSession_def)
  have lin: "lineage ''sess1'' ''st1'' (g_parentSubmissionId ?body) exDb
               = Inr (Some ''sub0'', 2, ?url)"
    by code_simp
  have cr: "createPromptSubmission (pendingSubmission ''sub2'' 50 ''sess1'' ''st1'' ?body
               (Some ''sub0'') 2) exDb
          = Some (exDb\<lparr>promptSubmissionT := promptSubmissionT exDb @
               [pendingSubmission ''sub2'' 50 ''sess1'' ''st1'' ?body (Some ''sub0'') 2]\<rparr>)"
    by code_simp
  have fl: "exFail (g_prompt ?body) ?url = Inl (ErrorObj ''Rate limit exceeded'')"
    by (simp add: exFail_def)
  from generation_failure_recorded[where callOpenRouter = exFail, OF ck pr act lin cr fl]
  show ?thesis by (simp add: pendingSubmission_def thrownMessage_def)
qed

text \<open>
  C9. Without a session cookie, or with one that names no active session, the gallery
  list answers with status 200 and an empty list of submissions, not with an
  authentication error.
\<close>

theorem list_without_session_is_empty:
  assumes "\<not> truthy (c_sessionId ck) \<or>
           (\<forall>s \<in> set (sessionT db). Some (s_id s) = c_sessionId ck \<longrightarrow> \<not> s_isActive s)"
  shows "listSubmissions_GET ck db = (json 200 (SubmissionsOnly []), db)"
proof (cases "truthy (c_sessionId ck)")
  case False
  then show ?thesis by (simp add: listSubmissions_GET_def)
next
  case True
  with assms have "find (\<lambda>s. Some (s_id s) = c_sessionId ck \<and> s_isActive s) (sessionT db) = None"
    by (auto simp: find_None_iff)
  then show ?thesis by (simp add: listSubmissions_GET_def)
qed

theorem list_without_session_is_empty_witness:
  "listSubmissions_GET \<lparr>c_sessionId = None, c_role = Some ''student'', c_studentId = Some ''st1''\<rparr>
      exDb = (json 200 (SubmissionsOnly []), exDb)
   \<and> listSubmissions_GET (exStudentCk ''st1'') (snd (endSession_POST 70 exTeacher exDb))
      = (json 200 (SubmissionsOnly []), snd (endSession_POST 70 exTeacher exDb))
   \<and> listSubmissions_GET \<lparr>c_sessionId = Some ''sess0'', c_role = Some ''teacher'', c_studentId = None\<rparr>
      exDb = (json 200 (SubmissionsOnly []), exDb)"
proof -
  have a: "\<not> truthy (c_sessionId \<lparr>c_sessionId = None, c_role = Some ''student'',
             c_studentId = Some ''st1''\<rparr>)"
    by (simp add: truthy_def)
  have b: "\<forall>s \<in> set (sessionT (snd (endSession_POST 70 exTeacher exDb))).
             Some (s_id s) = c_sessionId (exStudentCk ''st1'') \<longrightarrow> \<not> s_isActive s"
    by (simp add: endSession_POST_def exTeacher_def truthy_def exDb_def exSession_def
        exStudentCk_def)
  have c: "\<forall>s \<in> set (sessionT exDb).
             Some (s_id s) = c_sessionId \<lparr>c_sessionId = Some ''sess0'', c_role = Some ''teacher'',
               c_studentId = None\<rparr> \<longrightarrow> \<not> s_isActive s"
    by (simp add: exDb_def exSession_def)
  show ?thesis
    using list_without_session_is_empty[OF disjI1, OF a, of exDb]
      list_without_session_is_empty[OF disjI2, OF b]
      list_without_session_is_empty[OF disjI2, OF c]
    by simp
qed

text \<open>
  C10. A credential generation request that returns with status 200 was given a count
  between 1 and 50 and has appended exactly that many students, all of the caller's
  session, whose usernames are pairwise distinct and distinct from every username the
  session had, compared without case. The loop redraws on a collision, so the request
  returns only when the random source eventually supplies unused codes: it does return
  with status 200 for a teacher of an existing session when the database gives fresh
  ids and the source holds twice the count of codes beyond its collisions. Hence in
  every reachable store the usernames of each session are pairwise distinct without
  case.
\<close>

theorem generated_usernames_distinct:
  "(generateStudents_POST h ids now src ck count db = Some (r, db') \<and> status r = 200 \<longrightarrow>
      1 \<le> count \<and> count \<le> 50 \<and>
      (\<exists>new. db' = db\<lparr>studentT := studentT db @ new\<rparr> \<and> int (length new) = count \<and>
         (\<forall>st \<in> set new. Some (st_sessionId st) = c_sessionId ck) \<and>
         distinct (map lowerName new) \<and>
         set (map lowerName new) \<inter> set (sessionUsernames (the (c_sessionId ck)) db) = {} \<and>
         (\<exists>creds. payload r = Credentials creds \<and> map fst creds = map st_username new)))
   \<and> (c_sessionId ck = Some sid \<and> sid \<noteq> [] \<and> c_role ck = Some ''teacher'' \<and>
      1 \<le> count \<and> count \<le> 50 \<and> sid \<in> set (map s_id (sessionT db)) \<and>
      inj_on ids {0..<nat count} \<and>
      (\<forall>j \<in> {0..<nat count}. ids j \<notin> set (map st_id (studentT db))) \<and>
      2 * nat count + collisions (sessionUsernames sid db) src \<le> length src \<longrightarrow>
        (\<exists>r db'. generateStudents_POST h ids now src ck count db = Some (r, db') \<and>
                  status r = 200))
   \<and> (reachable db \<longrightarrow> distinct (sessionUsernames sid' db))"
proof (intro conjI impI)
  assume a: "generateStudents_POST h ids now src ck count db = Some (r, db') \<and> status r = 200"
  from generateStudents_returned[OF conjunct1[OF a] conjunct2[OF a]]
  show "1 \<le> count" "count \<le> 50"
    "\<exists>new. db' = db\<lparr>studentT := studentT db @ new\<rparr> \<and> int (length new) = count \<and>
         (\<forall>st \<in> set new. Some (st_sessionId st) = c_sessionId ck) \<and>
         distinct (map lowerName new) \<and>
         set (map lowerName new) \<inter> set (sessionUsernames (the (c_sessionId ck)) db) = {} \<and>
         (\<exists>creds. payload r = Credentials creds \<and> map fst creds = map st_username new)"
    by simp_all
next
  assume g: "c_sessionId ck = Some sid \<and> sid \<noteq> [] \<and> c_role ck = Some ''teacher'' \<and>
      1 \<le> count \<and> count \<le> 50 \<and> sid \<in> set (map s_id (sessionT db)) \<and>
      inj_on ids {0..<nat count} \<and>
      (\<forall>j \<in> {0..<nat count}. ids j \<notin> set (map st_id (studentT db))) \<and>
      2 * nat count + collisions (sessionUsernames sid db) src \<le> length src"
  show "\<exists>r db'. generateStudents_POST h ids now src ck count db = Some (r, db') \<and>
                  status r = 200"
    by (rule generateStudents_returns_supplied[of ck sid]) (use g in simp_all)
next
  assume "reachable db"
  then show "distinct (sessionUsernames sid' db)" by (rule reachable_usernames_distinct)
qed

theorem generated_usernames_distinct_witness:
  "sessionUsernames ''sess1'' exDb = [''aaaaaaaa'', ''cccccccc'']
   \<and> generateStudents_POST exHash (\<lambda>k. ''st3'') 60 exBytes2 exTeacher 1 exDb
      = Some (json 200 (Credentials [(''EEEEEEEE'', ''FFFFFFFF'')]),
           exDb\<lparr>studentT := studentT exDb @ [\<lparr>st_id = ''st3'', st_username = ''EEEEEEEE'',
              st_passwordHash = ''hash:FFFFFFFF'', st_createdAt = 60, st_sessionId = ''sess1''\<rparr>]\<rparr>)
   \<and> distinct (sessionUsernames ''sess1''
        (exDb\<lparr>studentT := studentT exDb @ [\<lparr>st_id = ''st3'', st_username = ''EEEEEEEE'',
              st_passwordHash = ''hash:FFFFFFFF'', st_createdAt = 60, st_sessionId = ''sess1''\<rparr>]\<rparr>))
   \<and> (\<exists>new. exDb\<lparr>studentT := studentT exDb @ [\<lparr>st_id = ''st3'', st_username = ''EEEEEEEE'',
              st_passwordHash = ''hash:FFFFFFFF'', st_createdAt = 60, st_sessionId = ''sess1''\<rparr>]\<rparr>
            = exDb\<lparr>studentT := studentT exDb @ new\<rparr>
          \<and> int (length new) = 1 \<and> distinct (map lowerName new)
          \<and> set (map lowerName new) \<inter> set (sessionUsernames ''sess1'' exDb) = {})
   \<and> collisions (sessionUsernames ''sess1'' exDb) exBytes2 = 2
   \<and> (\<exists>r db'. generateStudents_POST exHash (\<lambda>k. ''st3'') 60 exBytes2 exTeacher 1 exDb
                  = Some (r, db')
          \<and> status r = 200)"
proof -
  let ?db' = "exDb\<lparr>studentT := studentT exDb @ [\<lparr>st_id = ''st3'', st_username = ''EEEEEEEE'',
              st_passwordHash = ''hash:FFFFFFFF'', st_createdAt = 60, st_sessionId = ''sess1''\<rparr>]\<rparr>"
  have u: "sessionUsernames ''sess1'' exDb = [''aaaaaaaa'', ''cccccccc'']" by code_simp
  have "reachable ?db'"
    using exDb_reachable exStudents2 by (rule reachable.generateStudents)
  then have d: "distinct (sessionUsernames ''sess1'' ?db')"
    using generated_usernames_distinct[where db = ?db' and sid' = "''sess1''"] by blast
  have ck: "c_sessionId exTeacher = Some ''sess1''" "c_role exTeacher = Some ''teacher''"
    by (simp_all add: exTeacher_def)
  have s: "''sess1'' \<in> set (map s_id (sessionT exDb))" by (simp add: exDb_def exSession_def)
  have i: "inj_on (\<lambda>k. ''st3'') {0..<nat 1}" by (simp add: inj_on_def)
  have f: "\<forall>j \<in> {0..<nat 1}. ''st3'' \<notin> set (map st_id (studentT exDb))"
    by (simp add: exDb_def exStudent_def)
  have c: "collisions (sessionUsernames ''sess1'' exDb) exBytes2 = 2" by code_simp
  have l: "length exBytes2 = 4" by (simp add: exBytes2_def)
  have r: "\<exists>r db'. generateStudents_POST exHash (\<lambda>k. ''st3'') 60 exBytes2 exTeacher 1 exDb
                  = Some (r, db')
          \<and> status r = 200"
    using generated_usernames_distinct[where ck = exTeacher and sid = "''sess1''" and count = 1
        and db = exDb and ids = "\<lambda>k. ''st3''" and src = exBytes2 and h = exHash and now = 60,
        THEN conjunct2, THEN conjunct1]
      ck s i f c l by simp
  have g: "\<exists>new. ?db' = exDb\<lparr>studentT := studentT exDb @ new\<rparr>
          \<and> int (length new) = 1 \<and> distinct (map lowerName new)
          \<and> set (map lowerName new) \<inter> set (sessionUsernames ''sess1'' exDb) = {}"
    using generated_usernames_distinct[where ck = exTeacher and count = 1 and db = exDb
        and ids = "\<lambda>k. ''st3''" and src = exBytes2 and h = exHash and now = 60
        and r = "json 200 (Credentials [(''EEEEEEEE'', ''FFFFFFFF'')])" and db' = ?db',
        THEN conjunct1]
      exStudents2 ck by (auto simp: json_def)
  from u exStudents2 d g c r show ?thesis by blast
qed

end
